theory Spec2Isabelle
  imports Complex_Main "HOL-Library.Word" "HOL-Library.Sublist" "HOL-Library.Monad_Syntax"
begin

unbundle bit_operations_syntax

section \<open>JavaScript numbers\<close>

text \<open>
  A TypeScript \<^verbatim>\<open>number\<close> is an IEEE double. The finite values are modelled by
  \<open>Num r\<close> with \<open>r\<close> a real, the three special values by constructors of their own.
  Comparison, \<^verbatim>\<open>Math.min\<close> and \<^verbatim>\<open>Math.max\<close> are exact on doubles, so they are exact
  here. Multiplication and division of finite values are computed exactly in the model;
  a double rounds them (and overflows to an infinity), which the source always follows
  by a clamp to an interval whose bounds are doubles, or by a schema check that only
  asks whether the value is NaN. The sign of zero is not modelled.
\<close>

datatype number = Num real | PosInfinity | NegInfinity | NaN

text \<open>The operator \<^verbatim>\<open><\<close>: false as soon as one side is NaN.\<close>

fun num_less :: "number \<Rightarrow> number \<Rightarrow> bool" where
  "num_less NaN _ = False"
| "num_less _ NaN = False"
| "num_less (Num a) (Num b) = (a < b)"
| "num_less (Num a) PosInfinity = True"
| "num_less (Num a) NegInfinity = False"
| "num_less PosInfinity _ = False"
| "num_less NegInfinity NegInfinity = False"
| "num_less NegInfinity _ = True"

text \<open>\<^verbatim>\<open>Math.max\<close> and \<^verbatim>\<open>Math.min\<close> of two arguments: NaN if one argument is NaN.\<close>

fun Math_max :: "number \<Rightarrow> number \<Rightarrow> number" where
  "Math_max NaN _ = NaN"
| "Math_max _ NaN = NaN"
| "Math_max a b = (if num_less a b then b else a)"

fun Math_min :: "number \<Rightarrow> number \<Rightarrow> number" where
  "Math_min NaN _ = NaN"
| "Math_min _ NaN = NaN"
| "Math_min a b = (if num_less b a then b else a)"

text \<open>The operator \<^verbatim>\<open>*\<close>: an infinity times zero is NaN.\<close>

fun num_times :: "number \<Rightarrow> number \<Rightarrow> number" where
  "num_times NaN _ = NaN"
| "num_times _ NaN = NaN"
| "num_times (Num a) (Num b) = Num (a * b)"
| "num_times (Num a) PosInfinity =
     (if a = 0 then NaN else if 0 < a then PosInfinity else NegInfinity)"
| "num_times (Num a) NegInfinity =
     (if a = 0 then NaN else if 0 < a then NegInfinity else PosInfinity)"
| "num_times PosInfinity (Num b) =
     (if b = 0 then NaN else if 0 < b then PosInfinity else NegInfinity)"
| "num_times NegInfinity (Num b) =
     (if b = 0 then NaN else if 0 < b then NegInfinity else PosInfinity)"
| "num_times PosInfinity PosInfinity = PosInfinity"
| "num_times PosInfinity NegInfinity = NegInfinity"
| "num_times NegInfinity PosInfinity = NegInfinity"
| "num_times NegInfinity NegInfinity = PosInfinity"

text \<open>
  The operator \<^verbatim>\<open>/\<close>: a finite value divided by zero is an infinity of the sign of the
  dividend (the divisor's zero taken as positive), zero by zero and infinity by infinity
  are NaN.
\<close>

fun num_divide :: "number \<Rightarrow> number \<Rightarrow> number" where
  "num_divide NaN _ = NaN"
| "num_divide _ NaN = NaN"
| "num_divide (Num a) (Num b) =
     (if b = 0 then (if a = 0 then NaN else if 0 < a then PosInfinity else NegInfinity)
      else Num (a / b))"
| "num_divide (Num a) PosInfinity = Num 0"
| "num_divide (Num a) NegInfinity = Num 0"
| "num_divide PosInfinity (Num b) = (if 0 \<le> b then PosInfinity else NegInfinity)"
| "num_divide NegInfinity (Num b) = (if 0 \<le> b then NegInfinity else PosInfinity)"
| "num_divide _ _ = NaN"

section \<open>Risk score conversion\<close>

text \<open>The module risk-conversion (in the sources the last part of src/unnamed/part_005).\<close>

datatype RiskScale = Scale_0_1 | Scale_0_10 | Scale_0_100

datatype Severity = Low | Medium | High | Critical

definition convertRisk_0_1_to_0_10 :: "number \<Rightarrow> number" where
  "convertRisk_0_1_to_0_10 score = Math_min (Num 10) (Math_max (Num 0) (num_times score (Num 10)))"

definition convertRisk_0_100_to_0_10 :: "number \<Rightarrow> number" where
  "convertRisk_0_100_to_0_10 score = Math_min (Num 10) (Math_max (Num 0) (num_divide score (Num 10)))"

fun normalizeRiskScore :: "number \<Rightarrow> RiskScale \<Rightarrow> number" where
  "normalizeRiskScore score Scale_0_1 = convertRisk_0_1_to_0_10 score"
| "normalizeRiskScore score Scale_0_10 = Math_min (Num 10) (Math_max (Num 0) score)"
| "normalizeRiskScore score Scale_0_100 = convertRisk_0_100_to_0_10 score"

definition getSeverity :: "number \<Rightarrow> Severity" where
  "getSeverity score =
     (let normalizedScore = Math_min (Num 10) (Math_max (Num 0) score) in
      if num_less normalizedScore (Num 3) then Low
      else if num_less normalizedScore (Num 5) then Medium
      else if num_less normalizedScore (Num 7) then High
      else Critical)"

text \<open>The closed interval from 0 to 10 of the canonical scale; no special value lies in it.\<close>

fun in_0_10 :: "number \<Rightarrow> bool" where
  "in_0_10 (Num r) = (0 \<le> r \<and> r \<le> 10)"
| "in_0_10 _ = False"

section \<open>Trigger bitmask codec\<close>

datatype SessionTrigger = Filewatch | PreCommit | Manual | IdleFinalize

text \<open>
  The two functions close the session contracts (src/unnamed/part_005). The bitwise
  operators of JavaScript work on 32-bit integers, so the mask is a 32-bit word, also
  where the source writes \<^verbatim>\<open>number\<close>. The loop of \<^verbatim>\<open>encodeTriggerBitmask\<close> is the recursion over the list, the mask
  its accumulator.
\<close>

fun encode_step :: "32 word \<Rightarrow> SessionTrigger \<Rightarrow> 32 word" where
  "encode_step bits Filewatch = bits OR 1"
| "encode_step bits PreCommit = bits OR 2"
| "encode_step bits Manual = bits OR 4"
| "encode_step bits IdleFinalize = bits OR 8"

fun encode_loop :: "32 word \<Rightarrow> SessionTrigger list \<Rightarrow> 32 word" where
  "encode_loop bits [] = bits"
| "encode_loop bits (trigger # triggers) = encode_loop (encode_step bits trigger) triggers"

definition encodeTriggerBitmask :: "SessionTrigger list \<Rightarrow> 32 word" where
  "encodeTriggerBitmask triggers = encode_loop 0 triggers"

definition decodeTriggerBitmask :: "32 word \<Rightarrow> SessionTrigger list" where
  "decodeTriggerBitmask bits =
     (if bits AND 1 \<noteq> 0 then [Filewatch] else []) @
     (if bits AND 2 \<noteq> 0 then [PreCommit] else []) @
     (if bits AND 4 \<noteq> 0 then [Manual] else []) @
     (if bits AND 8 \<noteq> 0 then [IdleFinalize] else [])"

section \<open>JavaScript values\<close>

text \<open>
  The validator takes a value of type \<^verbatim>\<open>unknown\<close>, and the mappers hand object literals
  to the schemas. An object is the list of its own properties; \<open>JBuiltin\<close> stands for a
  function or object of the runtime (what a lookup finds on \<^verbatim>\<open>Object.prototype\<close>).
\<close>

datatype jsval =
    JUndefined
  | JNull
  | JBool bool
  | JNum number
  | JStr string
  | JArr "jsval list"
  | JObj "(string \<times> jsval) list"
  | JBuiltin string

text \<open>Reading a property the schemas ask for: a missing one reads as \<^verbatim>\<open>undefined\<close>.\<close>

fun get_prop :: "jsval \<Rightarrow> string \<Rightarrow> jsval" where
  "get_prop (JObj kvs) k = (case map_of kvs k of Some v \<Rightarrow> v | None \<Rightarrow> JUndefined)"
| "get_prop _ k = JUndefined"

fun is_object :: "jsval \<Rightarrow> bool" where
  "is_object (JObj kvs) = True"
| "is_object _ = False"

fun truthy :: "jsval \<Rightarrow> bool" where
  "truthy JUndefined = False"
| "truthy JNull = False"
| "truthy (JBool b) = b"
| "truthy (JNum n) = (n \<noteq> NaN \<and> n \<noteq> Num 0)"
| "truthy (JStr s) = (s \<noteq> [])"
| "truthy _ = True"

text \<open>The operator \<^verbatim>\<open>||\<close>.\<close>

definition js_or :: "jsval \<Rightarrow> jsval \<Rightarrow> jsval" where
  "js_or a b = (if truthy a then a else b)"

section \<open>The schema library\<close>

text \<open>
  The schemas are built with zod, which is not part of the repository; these are its
  documented checks. A parser returns \<open>None\<close> where zod reports an issue. \<^verbatim>\<open>z.number()\<close>
  rejects NaN; the parsed value of an object schema keeps the declared keys only.
\<close>

fun z_string :: "jsval \<Rightarrow> string option" where
  "z_string (JStr s) = Some s"
| "z_string _ = None"

fun z_number :: "jsval \<Rightarrow> number option" where
  "z_number (JNum n) = (if n = NaN then None else Some n)"
| "z_number _ = None"

fun z_boolean :: "jsval \<Rightarrow> bool option" where
  "z_boolean (JBool b) = Some b"
| "z_boolean _ = None"

text \<open>\<^verbatim>\<open>z.enum([...])\<close>, the table giving each literal its value in the model.\<close>

fun z_enum :: "(string \<times> 'a) list \<Rightarrow> jsval \<Rightarrow> 'a option" where
  "z_enum table (JStr s) = map_of table s"
| "z_enum table _ = None"

fun z_array_string :: "jsval \<Rightarrow> string list option" where
  "z_array_string (JArr vs) =
     (if list_all (\<lambda>v. z_string v \<noteq> None) vs then Some (map (\<lambda>v. the (z_string v)) vs) else None)"
| "z_array_string _ = None"

text \<open>\<^verbatim>\<open>.default(d)\<close> and \<^verbatim>\<open>.optional()\<close> act on \<^verbatim>\<open>undefined\<close> only.\<close>

definition z_default :: "(jsval \<Rightarrow> 'a option) \<Rightarrow> 'a \<Rightarrow> jsval \<Rightarrow> 'a option" where
  "z_default schema d v = (if v = JUndefined then Some d else schema v)"

definition z_optional :: "(jsval \<Rightarrow> 'a option) \<Rightarrow> jsval \<Rightarrow> 'a option option" where
  "z_optional schema v = (if v = JUndefined then Some None else map_option Some (schema v))"

text \<open>\<^verbatim>\<open>z.number().min(lo).max(hi)\<close> and \<^verbatim>\<open>z.number().int().min(0)\<close>.\<close>

definition z_number_min_max :: "real \<Rightarrow> real \<Rightarrow> jsval \<Rightarrow> number option" where
  "z_number_min_max lo hi v =
     (case z_number v of
        Some n \<Rightarrow> (if num_less n (Num lo) \<or> num_less (Num hi) n then None else Some n)
      | None \<Rightarrow> None)"

fun is_integer :: "number \<Rightarrow> bool" where
  "is_integer (Num r) = (r = of_int \<lfloor>r\<rfloor>)"
| "is_integer _ = False"

definition z_number_int_min :: "real \<Rightarrow> jsval \<Rightarrow> number option" where
  "z_number_int_min lo v =
     (case z_number v of
        Some n \<Rightarrow> (if is_integer n \<and> \<not> num_less n (Num lo) then Some n else None)
      | None \<Rightarrow> None)"

section \<open>The core events\<close>

datatype Protection = Watch | Warn | Block
datatype Outcome = Saved | Canceled | Blocked
datatype IssueType = IssueSecret | IssueMock | IssuePhantom
datatype Resolution = Fixed | Ignored | Allowlisted
datatype PolicyLevel = PolicyWatch | PolicyWarn | PolicyBlock | Unprotected
datatype AiAssistLevel = AssistNone | AssistLight | AssistMedium | AssistHeavy | AssistUnknown
datatype AiProvider = Cursor | Claude | ProviderUnknown | ProviderNone

text \<open>
  The \<^verbatim>\<open>properties\<close> of the seven core events, the fields in the order of their schema.
  The constructor is the discriminant: \<open>core_event_name\<close> gives the literal of \<^verbatim>\<open>event\<close>.
  The five optional fields of \<^verbatim>\<open>session_finalized\<close> are those of events/core.ts.
\<close>

datatype CoreProperties =
    SaveAttemptProps Protection Severity string string bool bool Outcome
  | SnapshotCreatedProps string string number number bool number
  | SessionFinalizedProps string "string list" "string list" number bool bool Severity
      "AiAssistLevel option" "number option" "AiProvider option" "number option" "number option"
  | IssueCreatedProps string string string IssueType Severity string
  | IssueResolvedProps string Resolution
  | SessionRestoredProps string "string list" number string
  | PolicyChangedProps string PolicyLevel PolicyLevel string

record CoreTelemetryEvent =
  event_version :: string
  timestamp :: number
  properties :: CoreProperties

fun core_event_name :: "CoreProperties \<Rightarrow> string" where
  "core_event_name (SaveAttemptProps _ _ _ _ _ _ _) = ''save_attempt''"
| "core_event_name (SnapshotCreatedProps _ _ _ _ _ _) = ''snapshot_created''"
| "core_event_name (SessionFinalizedProps _ _ _ _ _ _ _ _ _ _ _ _) = ''session_finalized''"
| "core_event_name (IssueCreatedProps _ _ _ _ _ _) = ''issue_created''"
| "core_event_name (IssueResolvedProps _ _) = ''issue_resolved''"
| "core_event_name (SessionRestoredProps _ _ _ _) = ''session_restored''"
| "core_event_name (PolicyChangedProps _ _ _ _) = ''policy_changed''"

definition CORE_TELEMETRY_EVENTS :: "string list" where
  "CORE_TELEMETRY_EVENTS =
     [''save_attempt'', ''snapshot_created'', ''session_finalized'', ''issue_created'',
      ''issue_resolved'', ''session_restored'', ''policy_changed'']"

definition EVENT_VERSION :: string where
  "EVENT_VERSION = ''1.0.0''"

abbreviation severity_enum :: "(string \<times> Severity) list" where
  "severity_enum \<equiv> [(''low'', Low), (''medium'', Medium), (''high'', High), (''critical'', Critical)]"

abbreviation protection_enum :: "(string \<times> Protection) list" where
  "protection_enum \<equiv> [(''watch'', Watch), (''warn'', Warn), (''block'', Block)]"

abbreviation outcome_enum :: "(string \<times> Outcome) list" where
  "outcome_enum \<equiv> [(''saved'', Saved), (''canceled'', Canceled), (''blocked'', Blocked)]"

abbreviation issue_type_enum :: "(string \<times> IssueType) list" where
  "issue_type_enum \<equiv> [(''secret'', IssueSecret), (''mock'', IssueMock), (''phantom'', IssuePhantom)]"

abbreviation resolution_enum :: "(string \<times> Resolution) list" where
  "resolution_enum \<equiv> [(''fixed'', Fixed), (''ignored'', Ignored), (''allowlisted'', Allowlisted)]"

abbreviation policy_level_enum :: "(string \<times> PolicyLevel) list" where
  "policy_level_enum \<equiv>
     [(''watch'', PolicyWatch), (''warn'', PolicyWarn), (''block'', PolicyBlock),
      (''unprotected'', Unprotected)]"

abbreviation ai_assist_level_enum :: "(string \<times> AiAssistLevel) list" where
  "ai_assist_level_enum \<equiv>
     [(''none'', AssistNone), (''light'', AssistLight), (''medium'', AssistMedium),
      (''heavy'', AssistHeavy), (''unknown'', AssistUnknown)]"

abbreviation ai_provider_enum :: "(string \<times> AiProvider) list" where
  "ai_provider_enum \<equiv>
     [(''cursor'', Cursor), (''claude'', Claude), (''unknown'', ProviderUnknown),
      (''none'', ProviderNone)]"

subsection \<open>The schemas of the properties\<close>

text \<open>
  events/core.ts and telemetry/events.v1.ts (src/unnamed/part_001; its definitions
  carry the prefix \<open>V1_\<close> where they differ) declare the same properties for six of the
  seven events; they differ on \<^verbatim>\<open>session_finalized\<close>, where core.ts adds five optional
  fields.
\<close>

definition SaveAttempt_properties :: "jsval \<Rightarrow> CoreProperties option" where
  "SaveAttempt_properties p =
     (if is_object p then
        do {
          protection \<leftarrow> z_enum protection_enum (get_prop p ''protection'');
          severity \<leftarrow> z_enum severity_enum (get_prop p ''severity'');
          file_kind \<leftarrow> z_string (get_prop p ''file_kind'');
          reason \<leftarrow> z_string (get_prop p ''reason'');
          ai_present \<leftarrow> z_boolean (get_prop p ''ai_present'');
          ai_burst \<leftarrow> z_boolean (get_prop p ''ai_burst'');
          outcome \<leftarrow> z_enum outcome_enum (get_prop p ''outcome'');
          Some (SaveAttemptProps protection severity file_kind reason ai_present ai_burst outcome)
        }
      else None)"

definition SnapshotCreated_properties :: "jsval \<Rightarrow> CoreProperties option" where
  "SnapshotCreated_properties p =
     (if is_object p then
        do {
          session_id \<leftarrow> z_string (get_prop p ''session_id'');
          snapshot_id \<leftarrow> z_string (get_prop p ''snapshot_id'');
          bytes_original \<leftarrow> z_number (get_prop p ''bytes_original'');
          bytes_stored \<leftarrow> z_number (get_prop p ''bytes_stored'');
          dedup_hit \<leftarrow> z_boolean (get_prop p ''dedup_hit'');
          latency_ms \<leftarrow> z_number (get_prop p ''latency_ms'');
          Some (SnapshotCreatedProps session_id snapshot_id bytes_original bytes_stored
                  dedup_hit latency_ms)
        }
      else None)"

definition V1_SessionFinalized_properties :: "jsval \<Rightarrow> CoreProperties option" where
  "V1_SessionFinalized_properties p =
     (if is_object p then
        do {
          session_id \<leftarrow> z_string (get_prop p ''session_id'');
          files \<leftarrow> z_array_string (get_prop p ''files'');
          triggers \<leftarrow> z_array_string (get_prop p ''triggers'');
          duration_ms \<leftarrow> z_number (get_prop p ''duration_ms'');
          ai_present \<leftarrow> z_boolean (get_prop p ''ai_present'');
          ai_burst \<leftarrow> z_boolean (get_prop p ''ai_burst'');
          highest_severity \<leftarrow> z_enum severity_enum (get_prop p ''highest_severity'');
          Some (SessionFinalizedProps session_id files triggers duration_ms ai_present ai_burst
                  highest_severity None None None None None)
        }
      else None)"

definition SessionFinalized_properties :: "jsval \<Rightarrow> CoreProperties option" where
  "SessionFinalized_properties p =
     (if is_object p then
        do {
          session_id \<leftarrow> z_string (get_prop p ''session_id'');
          files \<leftarrow> z_array_string (get_prop p ''files'');
          triggers \<leftarrow> z_array_string (get_prop p ''triggers'');
          duration_ms \<leftarrow> z_number (get_prop p ''duration_ms'');
          ai_present \<leftarrow> z_boolean (get_prop p ''ai_present'');
          ai_burst \<leftarrow> z_boolean (get_prop p ''ai_burst'');
          highest_severity \<leftarrow> z_enum severity_enum (get_prop p ''highest_severity'');
          ai_assist_level \<leftarrow> z_optional (z_enum ai_assist_level_enum) (get_prop p ''ai_assist_level'');
          ai_confidence_score \<leftarrow> z_optional (z_number_min_max 0 10) (get_prop p ''ai_confidence_score'');
          ai_provider \<leftarrow> z_optional (z_enum ai_provider_enum) (get_prop p ''ai_provider'');
          ai_large_insert_count \<leftarrow> z_optional (z_number_int_min 0) (get_prop p ''ai_large_insert_count'');
          ai_total_chars \<leftarrow> z_optional (z_number_int_min 0) (get_prop p ''ai_total_chars'');
          Some (SessionFinalizedProps session_id files triggers duration_ms ai_present ai_burst
                  highest_severity ai_assist_level ai_confidence_score ai_provider
                  ai_large_insert_count ai_total_chars)
        }
      else None)"

definition IssueCreated_properties :: "jsval \<Rightarrow> CoreProperties option" where
  "IssueCreated_properties p =
     (if is_object p then
        do {
          issue_id \<leftarrow> z_string (get_prop p ''issue_id'');
          session_id \<leftarrow> z_string (get_prop p ''session_id'');
          file_kind \<leftarrow> z_string (get_prop p ''file_kind'');
          type \<leftarrow> z_enum issue_type_enum (get_prop p ''type'');
          severity \<leftarrow> z_enum severity_enum (get_prop p ''severity'');
          recommendation \<leftarrow> z_string (get_prop p ''recommendation'');
          Some (IssueCreatedProps issue_id session_id file_kind type severity recommendation)
        }
      else None)"

definition IssueResolved_properties :: "jsval \<Rightarrow> CoreProperties option" where
  "IssueResolved_properties p =
     (if is_object p then
        do {
          issue_id \<leftarrow> z_string (get_prop p ''issue_id'');
          resolution \<leftarrow> z_enum resolution_enum (get_prop p ''resolution'');
          Some (IssueResolvedProps issue_id resolution)
        }
      else None)"

definition SessionRestored_properties :: "jsval \<Rightarrow> CoreProperties option" where
  "SessionRestored_properties p =
     (if is_object p then
        do {
          session_id \<leftarrow> z_string (get_prop p ''session_id'');
          files_restored \<leftarrow> z_array_string (get_prop p ''files_restored'');
          time_to_restore_ms \<leftarrow> z_number (get_prop p ''time_to_restore_ms'');
          reason \<leftarrow> z_string (get_prop p ''reason'');
          Some (SessionRestoredProps session_id files_restored time_to_restore_ms reason)
        }
      else None)"

definition PolicyChanged_properties :: "jsval \<Rightarrow> CoreProperties option" where
  "PolicyChanged_properties p =
     (if is_object p then
        do {
          pattern \<leftarrow> z_string (get_prop p ''pattern'');
          from_level \<leftarrow> z_enum policy_level_enum (get_prop p ''from'');
          to_level \<leftarrow> z_enum policy_level_enum (get_prop p ''to'');
          source \<leftarrow> z_string (get_prop p ''source'');
          Some (PolicyChangedProps pattern from_level to_level source)
        }
      else None)"

subsection \<open>The event schemas and the validator\<close>

text \<open>
  \<^verbatim>\<open>BaseEventSchema.extend({event: z.literal(tag), properties: ...})\<close>: the two fields of
  the base schema with their defaults, the literal and the properties. \<open>now\<close> is what
  \<^verbatim>\<open>Date.now()\<close> returns when the default of \<^verbatim>\<open>timestamp\<close> is asked for.
\<close>

definition event_schema ::
  "string \<Rightarrow> (jsval \<Rightarrow> CoreProperties option) \<Rightarrow> nat \<Rightarrow> jsval \<Rightarrow> CoreTelemetryEvent option" where
  "event_schema tag properties_schema now v =
     (if is_object v then
        do {
          version \<leftarrow> z_default z_string EVENT_VERSION (get_prop v ''event_version'');
          time \<leftarrow> z_default z_number (Num (real now)) (get_prop v ''timestamp'');
          _ \<leftarrow> (if get_prop v ''event'' = JStr tag then Some () else None);
          props \<leftarrow> properties_schema (get_prop v ''properties'');
          Some \<lparr>event_version = version, timestamp = time, properties = props\<rparr>
        }
      else None)"

abbreviation "SaveAttemptSchema \<equiv> event_schema ''save_attempt'' SaveAttempt_properties"
abbreviation "SnapshotCreatedSchema \<equiv> event_schema ''snapshot_created'' SnapshotCreated_properties"
abbreviation "SessionFinalizedSchema \<equiv> event_schema ''session_finalized'' SessionFinalized_properties"
abbreviation "V1_SessionFinalizedSchema \<equiv> event_schema ''session_finalized'' V1_SessionFinalized_properties"
abbreviation "IssueCreatedSchema \<equiv> event_schema ''issue_created'' IssueCreated_properties"
abbreviation "IssueResolvedSchema \<equiv> event_schema ''issue_resolved'' IssueResolved_properties"
abbreviation "SessionRestoredSchema \<equiv> event_schema ''session_restored'' SessionRestored_properties"
abbreviation "PolicyChangedSchema \<equiv> event_schema ''policy_changed'' PolicyChanged_properties"

text \<open>
  \<^verbatim>\<open>z.discriminatedUnion("event", [...])\<close>: the value of \<^verbatim>\<open>event\<close> selects the member
  schema; a value that is no object, or whose \<^verbatim>\<open>event\<close> is none of the literals,
  fails at once. \<open>None\<close> is the result \<^verbatim>\<open>{success: false}\<close> of \<^verbatim>\<open>safeParse\<close>.
\<close>

definition discriminatedUnion ::
  "(string \<times> (nat \<Rightarrow> jsval \<Rightarrow> CoreTelemetryEvent option)) list \<Rightarrow> nat \<Rightarrow> jsval
     \<Rightarrow> CoreTelemetryEvent option" where
  "discriminatedUnion members now v =
     (if is_object v then
        (case get_prop v ''event'' of
           JStr tag \<Rightarrow> (case map_of members tag of Some schema \<Rightarrow> schema now v | None \<Rightarrow> None)
         | _ \<Rightarrow> None)
      else None)"

definition CoreEventSchema :: "nat \<Rightarrow> jsval \<Rightarrow> CoreTelemetryEvent option" where
  "CoreEventSchema =
     discriminatedUnion
       [(''save_attempt'', SaveAttemptSchema),
        (''snapshot_created'', SnapshotCreatedSchema),
        (''session_finalized'', SessionFinalizedSchema),
        (''issue_created'', IssueCreatedSchema),
        (''issue_resolved'', IssueResolvedSchema),
        (''session_restored'', SessionRestoredSchema),
        (''policy_changed'', PolicyChangedSchema)]"

definition V1_CoreEventSchema :: "nat \<Rightarrow> jsval \<Rightarrow> CoreTelemetryEvent option" where
  "V1_CoreEventSchema =
     discriminatedUnion
       [(''save_attempt'', SaveAttemptSchema),
        (''snapshot_created'', SnapshotCreatedSchema),
        (''session_finalized'', V1_SessionFinalizedSchema),
        (''issue_created'', IssueCreatedSchema),
        (''issue_resolved'', IssueResolvedSchema),
        (''session_restored'', SessionRestoredSchema),
        (''policy_changed'', PolicyChangedSchema)]"

text \<open>
  The two helpers of each file. The text of zod's message is not modelled: every failure
  carries the same \<open>zod_error_message\<close>.
\<close>

definition zod_error_message :: string where
  "zod_error_message = ''ZodError''"

definition validateCoreTelemetryEvent :: "nat \<Rightarrow> jsval \<Rightarrow> bool" where
  "validateCoreTelemetryEvent now event = (CoreEventSchema now event \<noteq> None)"

definition getCoreEventValidationError :: "nat \<Rightarrow> jsval \<Rightarrow> string option" where
  "getCoreEventValidationError now event =
     (case CoreEventSchema now event of Some _ \<Rightarrow> None | None \<Rightarrow> Some zod_error_message)"

definition V1_validateCoreTelemetryEvent :: "nat \<Rightarrow> jsval \<Rightarrow> bool" where
  "V1_validateCoreTelemetryEvent now event = (V1_CoreEventSchema now event \<noteq> None)"

definition V1_getCoreEventValidationError :: "nat \<Rightarrow> jsval \<Rightarrow> string option" where
  "V1_getCoreEventValidationError now event =
     (case V1_CoreEventSchema now event of Some _ \<Rightarrow> None | None \<Rightarrow> Some zod_error_message)"

section \<open>The legacy events\<close>

text \<open>The table \<^verbatim>\<open>TELEMETRY_EVENTS\<close> of telemetry/events.ts, in its order.\<close>

abbreviation "EXTENSION_ACTIVATED \<equiv> ''extension.activated''"
abbreviation "EXTENSION_DEACTIVATED \<equiv> ''extension.deactivated''"
abbreviation "COMMAND_EXECUTION \<equiv> ''command.execution''"
abbreviation "SNAPSHOT_CREATED \<equiv> ''snapshot.created''"
abbreviation "SNAPBACK_USED \<equiv> ''snapback.used''"
abbreviation "RISK_DETECTED \<equiv> ''risk.detected''"
abbreviation "VIEW_ACTIVATED \<equiv> ''view.activated''"
abbreviation "NOTIFICATION_SHOWN \<equiv> ''notification.shown''"
abbreviation "FEATURE_USED \<equiv> ''feature.used''"
abbreviation "ERROR \<equiv> ''error''"
abbreviation "WALKTHROUGH_STEP_COMPLETED \<equiv> ''walkthrough.step.completed''"
abbreviation "ONBOARDING_PROTECTION_ASSIGNED \<equiv> ''onboarding.protection.assigned''"
abbreviation "ONBOARDING_PHASE_PROGRESSED \<equiv> ''onboarding.phase.progressed''"
abbreviation "ONBOARDING_CONTEXTUAL_PROMPT_SHOWN \<equiv> ''onboarding.contextual.prompt.shown''"
abbreviation "SIGNATURE_VERIFICATION_SUCCESS \<equiv> ''signature.verification.success''"
abbreviation "SIGNATURE_VERIFICATION_FAILED \<equiv> ''signature.verification.failed''"
abbreviation "RULES_CACHED_FALLBACK \<equiv> ''rules.cached.fallback''"

definition TELEMETRY_EVENTS :: "string list" where
  "TELEMETRY_EVENTS =
     [EXTENSION_ACTIVATED, EXTENSION_DEACTIVATED, COMMAND_EXECUTION, SNAPSHOT_CREATED,
      SNAPBACK_USED, RISK_DETECTED, VIEW_ACTIVATED, NOTIFICATION_SHOWN, FEATURE_USED, ERROR,
      WALKTHROUGH_STEP_COMPLETED, ONBOARDING_PROTECTION_ASSIGNED, ONBOARDING_PHASE_PROGRESSED,
      ONBOARDING_CONTEXTUAL_PROMPT_SHOWN, SIGNATURE_VERIFICATION_SUCCESS,
      SIGNATURE_VERIFICATION_FAILED, RULES_CACHED_FALLBACK]"

text \<open>
  The union \<^verbatim>\<open>AllowedTelemetryEvent\<close>: one constructor for each of the seventeen
  interfaces, holding the fields of \<^verbatim>\<open>properties\<close> in their declared order and the
  \<^verbatim>\<open>timestamp\<close> last. The last constructor is a value of the base interface
  \<^verbatim>\<open>TelemetryEvent\<close> with any tag and without \<^verbatim>\<open>properties\<close> (which that interface makes
  optional): what the \<^verbatim>\<open>default\<close> branch of the mappers is written for.
\<close>

datatype AllowedTelemetryEvent =
    ExtensionActivatedEvent string string number
  | ExtensionDeactivatedEvent number
  | CommandExecutionEvent string number bool number
  | SnapshotCreatedEvent string number number
  | SnapBackUsedEvent number number bool number
  | RiskDetectedEvent string "string list" number number
  | ViewActivatedEvent string number
  | NotificationShownEvent string "string option" number
  | FeatureUsedEvent string number
  | ErrorEvent string string number
  | WalkthroughStepCompletedEvent string string number
  | OnboardingProtectionAssignedEvent string string string bool number
  | OnboardingPhaseProgressedEvent number string "string list" number
  | OnboardingContextualPromptShownEvent string "string option" number
  | SignatureVerificationSuccessEvent number
  | SignatureVerificationFailedEvent number
  | RulesCachedFallbackEvent number
  | TelemetryEvent string number

text \<open>The field \<^verbatim>\<open>event\<close>.\<close>

fun event_name :: "AllowedTelemetryEvent \<Rightarrow> string" where
  "event_name (ExtensionActivatedEvent _ _ _) = EXTENSION_ACTIVATED"
| "event_name (ExtensionDeactivatedEvent _) = EXTENSION_DEACTIVATED"
| "event_name (CommandExecutionEvent _ _ _ _) = COMMAND_EXECUTION"
| "event_name (SnapshotCreatedEvent _ _ _) = SNAPSHOT_CREATED"
| "event_name (SnapBackUsedEvent _ _ _ _) = SNAPBACK_USED"
| "event_name (RiskDetectedEvent _ _ _ _) = RISK_DETECTED"
| "event_name (ViewActivatedEvent _ _) = VIEW_ACTIVATED"
| "event_name (NotificationShownEvent _ _ _) = NOTIFICATION_SHOWN"
| "event_name (FeatureUsedEvent _ _) = FEATURE_USED"
| "event_name (ErrorEvent _ _ _) = ERROR"
| "event_name (WalkthroughStepCompletedEvent _ _ _) = WALKTHROUGH_STEP_COMPLETED"
| "event_name (OnboardingProtectionAssignedEvent _ _ _ _ _) = ONBOARDING_PROTECTION_ASSIGNED"
| "event_name (OnboardingPhaseProgressedEvent _ _ _ _) = ONBOARDING_PHASE_PROGRESSED"
| "event_name (OnboardingContextualPromptShownEvent _ _ _) = ONBOARDING_CONTEXTUAL_PROMPT_SHOWN"
| "event_name (SignatureVerificationSuccessEvent _) = SIGNATURE_VERIFICATION_SUCCESS"
| "event_name (SignatureVerificationFailedEvent _) = SIGNATURE_VERIFICATION_FAILED"
| "event_name (RulesCachedFallbackEvent _) = RULES_CACHED_FALLBACK"
| "event_name (TelemetryEvent tag _) = tag"

text \<open>The field \<^verbatim>\<open>timestamp\<close>.\<close>

fun legacy_timestamp :: "AllowedTelemetryEvent \<Rightarrow> number" where
  "legacy_timestamp (ExtensionActivatedEvent _ _ ts) = ts"
| "legacy_timestamp (ExtensionDeactivatedEvent ts) = ts"
| "legacy_timestamp (CommandExecutionEvent _ _ _ ts) = ts"
| "legacy_timestamp (SnapshotCreatedEvent _ _ ts) = ts"
| "legacy_timestamp (SnapBackUsedEvent _ _ _ ts) = ts"
| "legacy_timestamp (RiskDetectedEvent _ _ _ ts) = ts"
| "legacy_timestamp (ViewActivatedEvent _ ts) = ts"
| "legacy_timestamp (NotificationShownEvent _ _ ts) = ts"
| "legacy_timestamp (FeatureUsedEvent _ ts) = ts"
| "legacy_timestamp (ErrorEvent _ _ ts) = ts"
| "legacy_timestamp (WalkthroughStepCompletedEvent _ _ ts) = ts"
| "legacy_timestamp (OnboardingProtectionAssignedEvent _ _ _ _ ts) = ts"
| "legacy_timestamp (OnboardingPhaseProgressedEvent _ _ _ ts) = ts"
| "legacy_timestamp (OnboardingContextualPromptShownEvent _ _ ts) = ts"
| "legacy_timestamp (SignatureVerificationSuccessEvent ts) = ts"
| "legacy_timestamp (SignatureVerificationFailedEvent ts) = ts"
| "legacy_timestamp (RulesCachedFallbackEvent ts) = ts"
| "legacy_timestamp (TelemetryEvent _ ts) = ts"

text \<open>A value of one of the seventeen interfaces, as the type of the mappers' argument asks.\<close>

fun has_properties :: "AllowedTelemetryEvent \<Rightarrow> bool" where
  "has_properties (TelemetryEvent _ _) = False"
| "has_properties _ = True"

section \<open>What the mappers use of the language\<close>

datatype JsError = TypeError | RangeError | ZodError

text \<open>\<^verbatim>\<open>schema.parse(v)\<close> throws where \<^verbatim>\<open>safeParse\<close> fails.\<close>

definition parse ::
  "(nat \<Rightarrow> jsval \<Rightarrow> CoreTelemetryEvent option) \<Rightarrow> nat \<Rightarrow> jsval \<Rightarrow> JsError + CoreTelemetryEvent" where
  "parse schema now v = (case schema now v of Some e \<Rightarrow> Inr e | None \<Rightarrow> Inl ZodError)"

text \<open>\<^verbatim>\<open>try { return body } catch (error) { console.error(...); return null }\<close>.\<close>

definition try_catch :: "JsError + 'a \<Rightarrow> 'a option" where
  "try_catch body = (case body of Inr v \<Rightarrow> Some v | Inl _ \<Rightarrow> None)"

text \<open>
  Reading \<^verbatim>\<open>map[key]\<close> on an object literal whose values are strings: an own property,
  else what the literal inherits from \<^verbatim>\<open>Object.prototype\<close>, else \<^verbatim>\<open>undefined\<close>.
\<close>

definition Object_prototype_keys :: "string list" where
  "Object_prototype_keys =
     [''constructor'', ''__defineGetter__'', ''__defineSetter__'', ''hasOwnProperty'',
      ''__lookupGetter__'', ''__lookupSetter__'', ''isPrototypeOf'', ''propertyIsEnumerable'',
      ''toString'', ''valueOf'', ''__proto__'', ''toLocaleString'']"

definition record_lookup :: "(string \<times> string) list \<Rightarrow> string \<Rightarrow> jsval" where
  "record_lookup own k =
     (case map_of own k of
        Some v \<Rightarrow> JStr v
      | None \<Rightarrow> (if k \<in> set Object_prototype_keys then JBuiltin k else JUndefined))"

text \<open>\<^verbatim>\<open>s.includes(pattern)\<close>: the pattern occurs in \<open>s\<close> as a contiguous piece.\<close>

fun String_includes :: "string \<Rightarrow> string \<Rightarrow> bool" where
  "String_includes [] pat = (pat = [])"
| "String_includes (c # cs) pat = (prefix pat (c # cs) \<or> String_includes cs pat)"

text \<open>
  \<^verbatim>\<open>s.replace(pattern, replacement)\<close> with a string pattern replaces the first
  occurrence only (the replacement holding no \<^verbatim>\<open>$\<close>).
\<close>

fun js_replace :: "string \<Rightarrow> string \<Rightarrow> string \<Rightarrow> string" where
  "js_replace pat rep [] = (if pat = [] then rep else [])"
| "js_replace pat rep (c # cs) =
     (if prefix pat (c # cs) then rep @ drop (length pat) (c # cs)
      else c # js_replace pat rep cs)"

text \<open>The decimal text of a natural number, as a template literal prints \<^verbatim>\<open>Date.now()\<close>.\<close>

fun decimal :: "nat \<Rightarrow> string" where
  "decimal n =
     (if n < 10 then [''0123456789'' ! n]
      else decimal (n div 10) @ [''0123456789'' ! (n mod 10)])"

declare decimal.simps [simp del]

text \<open>
  \<^verbatim>\<open>Array(n).fill(x)\<close> for a number \<open>n\<close>: a RangeError unless \<open>n\<close> is an integer from 0
  to \<open>2^32 - 1\<close>.
\<close>

fun Array_fill :: "number \<Rightarrow> jsval \<Rightarrow> JsError + jsval" where
  "Array_fill (Num r) x =
     (if r = of_int \<lfloor>r\<rfloor> \<and> 0 \<le> r \<and> r < 2 ^ 32 then Inr (JArr (replicate (nat \<lfloor>r\<rfloor>) x))
      else Inl RangeError)"
| "Array_fill _ x = Inl RangeError"

section \<open>The mapper of telemetry/event-mapper.ts\<close>

text \<open>
  The class \<^verbatim>\<open>TelemetryEventMapper\<close> that the migration script imports (in the sources
  the second part of src/telemetry/index.ts); its definitions carry the prefix
  \<open>EventMapper_\<close>, those of events/migrate.ts the prefix \<open>Migrate_\<close>.
  Each private method is one \<^verbatim>\<open>try\<close> block: \<open>..._try\<close> is its body, an error where it
  throws, and the method is the body under \<open>try_catch\<close>. \<open>now\<close> is the value of
  \<^verbatim>\<open>Date.now()\<close> during the call. \<^verbatim>\<open>mapEvent\<close> is the only caller and passes an event
  of the matching tag, so the last equation of each body is the event without
  \<^verbatim>\<open>properties\<close>, on which the first read of a field throws a TypeError.
\<close>

abbreviation severityMap :: "(string \<times> string) list" where
  "severityMap \<equiv>
     [(''low'', ''low''), (''medium'', ''medium''), (''high'', ''high''), (''critical'', ''critical'')]"

abbreviation protectionMap :: "(string \<times> string) list" where
  "protectionMap \<equiv>
     [(''low'', ''watch''), (''medium'', ''warn''), (''high'', ''block''), (''critical'', ''block'')]"

fun EventMapper_mapOnboardingProtectionAssigned_try ::
  "nat \<Rightarrow> AllowedTelemetryEvent \<Rightarrow> JsError + CoreTelemetryEvent" where
  "EventMapper_mapOnboardingProtectionAssigned_try now
     (OnboardingProtectionAssignedEvent level trigger fileType isFirstProtection ts) =
     parse SaveAttemptSchema now
       (JObj [(''event'', JStr ''save_attempt''),
              (''properties'', JObj
                 [(''protection'', js_or (record_lookup protectionMap level) (JStr ''watch'')),
                  (''severity'', js_or (record_lookup severityMap level) (JStr ''low'')),
                  (''file_kind'', JStr fileType),
                  (''reason'', JStr (''onboarding_'' @ trigger)),
                  (''ai_present'', JBool False),
                  (''ai_burst'', JBool False),
                  (''outcome'', JStr ''saved'')]),
              (''timestamp'', JNum ts)])"
| "EventMapper_mapOnboardingProtectionAssigned_try now _ = Inl TypeError"

fun EventMapper_mapSnapshotCreated_try ::
  "nat \<Rightarrow> AllowedTelemetryEvent \<Rightarrow> JsError + CoreTelemetryEvent" where
  "EventMapper_mapSnapshotCreated_try now (SnapshotCreatedEvent method filesCount ts) =
     parse SnapshotCreatedSchema now
       (JObj [(''event'', JStr ''snapshot_created''),
              (''properties'', JObj
                 [(''session_id'', JStr ''legacy_session''),
                  (''snapshot_id'', JStr (''snap_'' @ decimal now)),
                  (''bytes_original'', JNum (num_times filesCount (Num 1024))),
                  (''bytes_stored'', JNum (num_times filesCount (Num 512))),
                  (''dedup_hit'', JBool False),
                  (''latency_ms'', JNum (Num 0))]),
              (''timestamp'', JNum ts)])"
| "EventMapper_mapSnapshotCreated_try now _ = Inl TypeError"

fun EventMapper_mapSnapBackUsed_try ::
  "nat \<Rightarrow> AllowedTelemetryEvent \<Rightarrow> JsError + CoreTelemetryEvent" where
  "EventMapper_mapSnapBackUsed_try now (SnapBackUsedEvent filesRestored duration success ts) =
     (case Array_fill filesRestored (JStr ''legacy_file'') of
        Inl err \<Rightarrow> Inl err
      | Inr files \<Rightarrow>
          parse SessionRestoredSchema now
            (JObj [(''event'', JStr ''session_restored''),
                   (''properties'', JObj
                      [(''session_id'', JStr ''legacy_session''),
                       (''files_restored'', files),
                       (''time_to_restore_ms'', JNum duration),
                       (''reason'', JStr (if success then ''user_initiated'' else ''failed''))]),
                   (''timestamp'', JNum ts)]))"
| "EventMapper_mapSnapBackUsed_try now _ = Inl TypeError"

fun EventMapper_mapRiskDetected_try ::
  "nat \<Rightarrow> AllowedTelemetryEvent \<Rightarrow> JsError + CoreTelemetryEvent" where
  "EventMapper_mapRiskDetected_try now (RiskDetectedEvent riskLevel patterns confidence ts) =
     (let issueType =
            (if list_ex (\<lambda>p. String_includes p ''mock'' \<or> String_includes p ''test'') patterns
             then ''mock''
             else if list_ex (\<lambda>p. String_includes p ''phantom'' \<or> String_includes p ''unused'')
                       patterns
             then ''phantom''
             else ''secret'')
      in parse IssueCreatedSchema now
           (JObj [(''event'', JStr ''issue_created''),
                  (''properties'', JObj
                     [(''issue_id'', JStr (''issue_'' @ decimal now)),
                      (''session_id'', JStr ''legacy_session''),
                      (''file_kind'', JStr ''unknown''),
                      (''type'', JStr issueType),
                      (''severity'', js_or (record_lookup severityMap riskLevel) (JStr ''medium'')),
                      (''recommendation'', JStr ''Review detected risk pattern'')]),
                  (''timestamp'', JNum ts)]))"
| "EventMapper_mapRiskDetected_try now _ = Inl TypeError"

definition EventMapper_mapOnboardingProtectionAssigned ::
  "nat \<Rightarrow> AllowedTelemetryEvent \<Rightarrow> CoreTelemetryEvent option" where
  "EventMapper_mapOnboardingProtectionAssigned now event =
     try_catch (EventMapper_mapOnboardingProtectionAssigned_try now event)"

definition EventMapper_mapSnapshotCreated ::
  "nat \<Rightarrow> AllowedTelemetryEvent \<Rightarrow> CoreTelemetryEvent option" where
  "EventMapper_mapSnapshotCreated now event = try_catch (EventMapper_mapSnapshotCreated_try now event)"

definition EventMapper_mapSnapBackUsed ::
  "nat \<Rightarrow> AllowedTelemetryEvent \<Rightarrow> CoreTelemetryEvent option" where
  "EventMapper_mapSnapBackUsed now event = try_catch (EventMapper_mapSnapBackUsed_try now event)"

definition EventMapper_mapRiskDetected ::
  "nat \<Rightarrow> AllowedTelemetryEvent \<Rightarrow> CoreTelemetryEvent option" where
  "EventMapper_mapRiskDetected now event = try_catch (EventMapper_mapRiskDetected_try now event)"

text \<open>
  The \<^verbatim>\<open>switch\<close> of \<^verbatim>\<open>mapEvent\<close>: the label a tag reaches. The labels that only
  return null share \<open>CaseDerivedMetricsOnly\<close>; a tag under no label reaches
  \<open>CaseDefault\<close>. The last three labels are those events/migrate.ts adds.
\<close>

datatype SwitchCase =
    CaseOnboardingProtectionAssigned
  | CaseSnapshotCreated
  | CaseSnapBackUsed
  | CaseRiskDetected
  | CaseDerivedMetricsOnly
  | CaseDefault
  | CaseCommandExecution
  | CaseExtensionDeactivated
  | CaseWalkthroughStepCompleted

definition EventMapper_switch :: "string \<Rightarrow> SwitchCase" where
  "EventMapper_switch tag =
     (if tag = ONBOARDING_PROTECTION_ASSIGNED then CaseOnboardingProtectionAssigned
      else if tag = SNAPSHOT_CREATED then CaseSnapshotCreated
      else if tag = SNAPBACK_USED then CaseSnapBackUsed
      else if tag = RISK_DETECTED then CaseRiskDetected
      else if tag \<in> set [EXTENSION_ACTIVATED, EXTENSION_DEACTIVATED, COMMAND_EXECUTION,
                VIEW_ACTIVATED, NOTIFICATION_SHOWN, FEATURE_USED, ERROR,
                WALKTHROUGH_STEP_COMPLETED, ONBOARDING_PHASE_PROGRESSED,
                ONBOARDING_CONTEXTUAL_PROMPT_SHOWN, SIGNATURE_VERIFICATION_SUCCESS,
                SIGNATURE_VERIFICATION_FAILED, RULES_CACHED_FALLBACK]
      then CaseDerivedMetricsOnly
      else CaseDefault)"

text \<open>
  \<^verbatim>\<open>mapEvent\<close>: \<open>Inr\<close> is what it returns (\<open>None\<close> for null), \<open>Inl\<close> an exception that
  leaves it.
\<close>

definition EventMapper_mapEvent ::
  "nat \<Rightarrow> AllowedTelemetryEvent \<Rightarrow> JsError + CoreTelemetryEvent option" where
  "EventMapper_mapEvent now event =
     (case EventMapper_switch (event_name event) of
        CaseOnboardingProtectionAssigned \<Rightarrow> Inr (EventMapper_mapOnboardingProtectionAssigned now event)
      | CaseSnapshotCreated \<Rightarrow> Inr (EventMapper_mapSnapshotCreated now event)
      | CaseSnapBackUsed \<Rightarrow> Inr (EventMapper_mapSnapBackUsed now event)
      | CaseRiskDetected \<Rightarrow> Inr (EventMapper_mapRiskDetected now event)
      | _ \<Rightarrow> Inr None)"

section \<open>The mapper of events/migrate.ts\<close>

text \<open>
  Modelled from the spec: events/index.ts, which declares \<^verbatim>\<open>LEGACY_TELEMETRY_EVENTS\<close>
  and \<^verbatim>\<open>LegacyAllowedTelemetryEvent\<close>, is not among the sources. The specification
  knows one legacy taxonomy of about seventeen tags, each with its property shape and a
  timestamp, and the fields this mapper reads are those of telemetry/events.ts; so the
  union of that file is taken for the type, and its table (\<open>EXTENSION_ACTIVATED\<close>, ...)
  for the tags.
\<close>

type_synonym LegacyAllowedTelemetryEvent = AllowedTelemetryEvent

text \<open>
  Each method tests the tag, builds the event, and returns its parse if the validator of
  events/core.ts accepts it, null otherwise; no method catches.
\<close>

definition return_if_valid ::
  "(nat \<Rightarrow> jsval \<Rightarrow> CoreTelemetryEvent option) \<Rightarrow> nat \<Rightarrow> jsval
     \<Rightarrow> JsError + CoreTelemetryEvent option" where
  "return_if_valid schema now v =
     (if validateCoreTelemetryEvent now v then
        (case parse schema now v of Inl err \<Rightarrow> Inl err | Inr e \<Rightarrow> Inr (Some e))
      else Inr None)"

fun getDurationFromEvent :: "LegacyAllowedTelemetryEvent \<Rightarrow> number" where
  "getDurationFromEvent (CommandExecutionEvent command duration success ts) = duration"
| "getDurationFromEvent (SnapBackUsedEvent filesRestored duration success ts) = duration"
| "getDurationFromEvent _ = Num 0"

definition Migrate_mapOnboardingProtectionAssigned ::
  "nat \<Rightarrow> LegacyAllowedTelemetryEvent \<Rightarrow> JsError + CoreTelemetryEvent option" where
  "Migrate_mapOnboardingProtectionAssigned now event =
     (if event_name event \<noteq> ONBOARDING_PROTECTION_ASSIGNED then Inr None
      else
        (case event of
           OnboardingProtectionAssignedEvent level trigger fileType isFirstProtection ts \<Rightarrow>
             return_if_valid SaveAttemptSchema now
               (JObj [(''event'', JStr ''save_attempt''),
                      (''properties'', JObj
                         [(''protection'', JStr level),
                          (''severity'', JStr ''medium''),
                          (''file_kind'', JStr fileType),
                          (''reason'', JStr trigger),
                          (''ai_present'', JBool False),
                          (''ai_burst'', JBool False),
                          (''outcome'', JStr ''saved'')]),
                      (''timestamp'', JNum ts)])
         | _ \<Rightarrow> Inl TypeError))"

definition Migrate_mapCommandExecution ::
  "nat \<Rightarrow> LegacyAllowedTelemetryEvent \<Rightarrow> JsError + CoreTelemetryEvent option" where
  "Migrate_mapCommandExecution now event =
     (if event_name event \<noteq> COMMAND_EXECUTION then Inr None
      else
        (case event of
           CommandExecutionEvent command duration success ts \<Rightarrow>
             return_if_valid SaveAttemptSchema now
               (JObj [(''event'', JStr ''save_attempt''),
                      (''properties'', JObj
                         [(''protection'', JStr ''watch''),
                          (''severity'', JStr ''low''),
                          (''file_kind'', JStr ''unknown''),
                          (''reason'', JStr command),
                          (''ai_present'', JBool False),
                          (''ai_burst'', JBool False),
                          (''outcome'', JStr (if success then ''saved'' else ''canceled''))]),
                      (''timestamp'', JNum ts)])
         | _ \<Rightarrow> Inl TypeError))"

definition Migrate_mapSnapshotCreated ::
  "nat \<Rightarrow> LegacyAllowedTelemetryEvent \<Rightarrow> JsError + CoreTelemetryEvent option" where
  "Migrate_mapSnapshotCreated now event =
     (if event_name event \<noteq> SNAPSHOT_CREATED then Inr None
      else
        return_if_valid SnapshotCreatedSchema now
          (JObj [(''event'', JStr ''snapshot_created''),
                 (''properties'', JObj
                    [(''session_id'', JStr ''unknown''),
                     (''snapshot_id'', JStr ''unknown''),
                     (''bytes_original'', JNum (Num 0)),
                     (''bytes_stored'', JNum (Num 0)),
                     (''dedup_hit'', JBool False),
                     (''latency_ms'', JNum (getDurationFromEvent event))]),
                 (''timestamp'', JNum (legacy_timestamp event))]))"

definition Migrate_mapExtensionDeactivated ::
  "nat \<Rightarrow> LegacyAllowedTelemetryEvent \<Rightarrow> JsError + CoreTelemetryEvent option" where
  "Migrate_mapExtensionDeactivated now event =
     (if event_name event \<noteq> EXTENSION_DEACTIVATED then Inr None
      else
        return_if_valid SessionFinalizedSchema now
          (JObj [(''event'', JStr ''session_finalized''),
                 (''properties'', JObj
                    [(''session_id'', JStr ''unknown''),
                     (''files'', JArr []),
                     (''triggers'', JArr []),
                     (''duration_ms'', JNum (getDurationFromEvent event)),
                     (''ai_present'', JBool False),
                     (''ai_burst'', JBool False),
                     (''highest_severity'', JStr ''low'')]),
                 (''timestamp'', JNum (legacy_timestamp event))]))"

definition Migrate_mapRiskDetected ::
  "nat \<Rightarrow> LegacyAllowedTelemetryEvent \<Rightarrow> JsError + CoreTelemetryEvent option" where
  "Migrate_mapRiskDetected now event =
     (if event_name event \<noteq> RISK_DETECTED then Inr None
      else
        (case event of
           RiskDetectedEvent riskLevel patterns confidence ts \<Rightarrow>
             return_if_valid IssueCreatedSchema now
               (JObj [(''event'', JStr ''issue_created''),
                      (''properties'', JObj
                         [(''issue_id'', JStr ''unknown''),
                          (''session_id'', JStr ''unknown''),
                          (''file_kind'', JStr ''unknown''),
                          (''type'', JStr ''phantom''),
                          (''severity'', JStr riskLevel),
                          (''recommendation'', JStr ''Review detected risk'')]),
                      (''timestamp'', JNum ts)])
         | _ \<Rightarrow> Inl TypeError))"

definition Migrate_mapWalkthroughStepCompleted ::
  "nat \<Rightarrow> LegacyAllowedTelemetryEvent \<Rightarrow> JsError + CoreTelemetryEvent option" where
  "Migrate_mapWalkthroughStepCompleted now event =
     (if event_name event \<noteq> WALKTHROUGH_STEP_COMPLETED then Inr None
      else
        (case event of
           WalkthroughStepCompletedEvent stepId stepTitle ts \<Rightarrow>
             return_if_valid IssueResolvedSchema now
               (JObj [(''event'', JStr ''issue_resolved''),
                      (''properties'', JObj
                         [(''issue_id'', JStr (''onboarding-'' @ stepId)),
                          (''resolution'', JStr ''fixed'')]),
                      (''timestamp'', JNum ts)])
         | _ \<Rightarrow> Inl TypeError))"

definition Migrate_mapSnapBackUsed ::
  "nat \<Rightarrow> LegacyAllowedTelemetryEvent \<Rightarrow> JsError + CoreTelemetryEvent option" where
  "Migrate_mapSnapBackUsed now event =
     (if event_name event \<noteq> SNAPBACK_USED then Inr None
      else
        return_if_valid SessionRestoredSchema now
          (JObj [(''event'', JStr ''session_restored''),
                 (''properties'', JObj
                    [(''session_id'', JStr ''unknown''),
                     (''files_restored'', JArr []),
                     (''time_to_restore_ms'', JNum (getDurationFromEvent event)),
                     (''reason'', JStr ''user_request'')]),
                 (''timestamp'', JNum (legacy_timestamp event))]))"

definition Migrate_switch :: "string \<Rightarrow> SwitchCase" where
  "Migrate_switch tag =
     (if tag = ONBOARDING_PROTECTION_ASSIGNED then CaseOnboardingProtectionAssigned
      else if tag = COMMAND_EXECUTION then CaseCommandExecution
      else if tag = SNAPSHOT_CREATED then CaseSnapshotCreated
      else if tag = EXTENSION_DEACTIVATED then CaseExtensionDeactivated
      else if tag = RISK_DETECTED then CaseRiskDetected
      else if tag = WALKTHROUGH_STEP_COMPLETED then CaseWalkthroughStepCompleted
      else if tag = SNAPBACK_USED then CaseSnapBackUsed
      else if tag \<in> set [EXTENSION_ACTIVATED, VIEW_ACTIVATED, NOTIFICATION_SHOWN, FEATURE_USED,
                ERROR, ONBOARDING_PHASE_PROGRESSED, ONBOARDING_CONTEXTUAL_PROMPT_SHOWN,
                SIGNATURE_VERIFICATION_SUCCESS, SIGNATURE_VERIFICATION_FAILED,
                RULES_CACHED_FALLBACK]
      then CaseDerivedMetricsOnly
      else CaseDefault)"

definition Migrate_mapEvent ::
  "nat \<Rightarrow> LegacyAllowedTelemetryEvent \<Rightarrow> JsError + CoreTelemetryEvent option" where
  "Migrate_mapEvent now event =
     (case Migrate_switch (event_name event) of
        CaseOnboardingProtectionAssigned \<Rightarrow> Migrate_mapOnboardingProtectionAssigned now event
      | CaseCommandExecution \<Rightarrow> Migrate_mapCommandExecution now event
      | CaseSnapshotCreated \<Rightarrow> Migrate_mapSnapshotCreated now event
      | CaseExtensionDeactivated \<Rightarrow> Migrate_mapExtensionDeactivated now event
      | CaseRiskDetected \<Rightarrow> Migrate_mapRiskDetected now event
      | CaseWalkthroughStepCompleted \<Rightarrow> Migrate_mapWalkthroughStepCompleted now event
      | CaseSnapBackUsed \<Rightarrow> Migrate_mapSnapBackUsed now event
      | _ \<Rightarrow> Inr None)"

section \<open>The migration script\<close>

text \<open>
  The script migrate-events (src/unnamed/part_002).
  The loop of \<^verbatim>\<open>main\<close> over the legacy events, the two arrays it pushes to as
  accumulators. \<open>clock i\<close> is what \<^verbatim>\<open>Date.now()\<close> returns while the event of index \<open>i\<close> is
  mapped. An exception of the mapper would leave the loop.
\<close>

fun migrate_loop ::
  "(nat \<Rightarrow> nat) \<Rightarrow> nat \<Rightarrow> AllowedTelemetryEvent list \<Rightarrow> CoreTelemetryEvent list
     \<Rightarrow> AllowedTelemetryEvent list
     \<Rightarrow> JsError + (CoreTelemetryEvent list \<times> AllowedTelemetryEvent list)" where
  "migrate_loop clock i [] coreEvents unmappedEvents = Inr (coreEvents, unmappedEvents)"
| "migrate_loop clock i (legacyEvent # rest) coreEvents unmappedEvents =
     (case EventMapper_mapEvent (clock i) legacyEvent of
        Inl err \<Rightarrow> Inl err
      | Inr (Some coreEvent) \<Rightarrow>
          migrate_loop clock (Suc i) rest (coreEvents @ [coreEvent]) unmappedEvents
      | Inr None \<Rightarrow>
          migrate_loop clock (Suc i) rest coreEvents (unmappedEvents @ [legacyEvent]))"

text \<open>
  A file to read is known by what \<^verbatim>\<open>JSON.parse\<close> makes of its text (the script casts
  the array to legacy events unchecked); a file written by the array it serialises.
  \<^verbatim>\<open>main\<close> takes the arguments after the script's name and the readable files, and
  gives the exit code with the files written, in order. Writes are taken to succeed.
\<close>

datatype FileContent = NotJson | JsonNotArray | LegacyEventArray "AllowedTelemetryEvent list"

datatype Written =
    CoreEventsJson "CoreTelemetryEvent list"
  | LegacyEventsJson "AllowedTelemetryEvent list"

definition main ::
  "string list \<Rightarrow> (string \<Rightarrow> FileContent option) \<Rightarrow> (nat \<Rightarrow> nat) \<Rightarrow> nat \<times> (string \<times> Written) list" where
  "main args fs clock =
     (if length args < 2 then (1, [])
      else
        (let inputFile = args ! 0; outputFile = args ! 1 in
         case fs inputFile of
           None \<Rightarrow> (1, [])
         | Some NotJson \<Rightarrow> (1, [])
         | Some JsonNotArray \<Rightarrow> (1, [])
         | Some (LegacyEventArray legacyEvents) \<Rightarrow>
             (case migrate_loop clock 0 legacyEvents [] [] of
                Inl err \<Rightarrow> (1, [])
              | Inr (coreEvents, unmappedEvents) \<Rightarrow>
                  (0, (outputFile, CoreEventsJson coreEvents) #
                      (if length unmappedEvents > 0 then
                         [(js_replace ''.json'' ''-unmapped.json'' outputFile,
                           LegacyEventsJson unmappedEvents)]
                       else [])))))"

section \<open>What the specification says of the mappers\<close>

text \<open>
  The rule of the specification for a risk detection, in its words: the type by the
  patterns that contain a word, the severity carried over with medium for any other
  level. And the result of the mapper as the driver reads it.
\<close>

definition spec_issue_type :: "string list \<Rightarrow> IssueType" where
  "spec_issue_type patterns =
     (if \<exists>p \<in> set patterns. sublist ''mock'' p \<or> sublist ''test'' p then IssueMock
      else if \<exists>p \<in> set patterns. sublist ''phantom'' p \<or> sublist ''unused'' p then IssuePhantom
      else IssueSecret)"

definition spec_severity :: "string \<Rightarrow> Severity" where
  "spec_severity level =
     (if level = ''low'' then Low
      else if level = ''medium'' then Medium
      else if level = ''high'' then High
      else if level = ''critical'' then Critical
      else Medium)"

definition mapEvent_result :: "nat \<Rightarrow> AllowedTelemetryEvent \<Rightarrow> CoreTelemetryEvent option" where
  "mapEvent_result now event = (case EventMapper_mapEvent now event of Inr r \<Rightarrow> r | Inl err \<Rightarrow> None)"

section \<open>What the specification asks of a candidate\<close>

text \<open>
  The shapes the specification names, stated on the value itself: the type of each
  required field of the seven property objects, the optional fields of events/core.ts
  (absent, or within their declared type and range), and the envelope an accepted
  candidate must come back with.
\<close>

fun is_string :: "jsval \<Rightarrow> bool" where
  "is_string (JStr s) = True"
| "is_string _ = False"

fun is_boolean :: "jsval \<Rightarrow> bool" where
  "is_boolean (JBool b) = True"
| "is_boolean _ = False"

fun is_number :: "jsval \<Rightarrow> bool" where
  "is_number (JNum n) = (n \<noteq> NaN)"
| "is_number _ = False"

fun is_one_of :: "string list \<Rightarrow> jsval \<Rightarrow> bool" where
  "is_one_of literals (JStr s) = (s \<in> set literals)"
| "is_one_of literals _ = False"

fun is_string_array :: "jsval \<Rightarrow> bool" where
  "is_string_array (JArr vs) = list_all is_string vs"
| "is_string_array _ = False"

definition absent_or :: "(jsval \<Rightarrow> bool) \<Rightarrow> jsval \<Rightarrow> bool" where
  "absent_or P v = (v = JUndefined \<or> P v)"

fun is_number_between :: "real \<Rightarrow> real \<Rightarrow> jsval \<Rightarrow> bool" where
  "is_number_between lo hi (JNum (Num r)) = (lo \<le> r \<and> r \<le> hi)"
| "is_number_between lo hi _ = False"

fun is_count :: "jsval \<Rightarrow> bool" where
  "is_count (JNum (Num r)) = (r \<in> \<int> \<and> 0 \<le> r)"
| "is_count _ = False"

definition conforms :: "string \<Rightarrow> jsval \<Rightarrow> bool" where
  "conforms tag p =
     (is_object p \<and>
      (if tag = ''save_attempt'' then
         is_one_of [''watch'', ''warn'', ''block''] (get_prop p ''protection'') \<and>
         is_one_of [''low'', ''medium'', ''high'', ''critical''] (get_prop p ''severity'') \<and>
         is_string (get_prop p ''file_kind'') \<and>
         is_string (get_prop p ''reason'') \<and>
         is_boolean (get_prop p ''ai_present'') \<and>
         is_boolean (get_prop p ''ai_burst'') \<and>
         is_one_of [''saved'', ''canceled'', ''blocked''] (get_prop p ''outcome'')
       else if tag = ''snapshot_created'' then
         is_string (get_prop p ''session_id'') \<and>
         is_string (get_prop p ''snapshot_id'') \<and>
         is_number (get_prop p ''bytes_original'') \<and>
         is_number (get_prop p ''bytes_stored'') \<and>
         is_boolean (get_prop p ''dedup_hit'') \<and>
         is_number (get_prop p ''latency_ms'')
       else if tag = ''session_finalized'' then
         is_string (get_prop p ''session_id'') \<and>
         is_string_array (get_prop p ''files'') \<and>
         is_string_array (get_prop p ''triggers'') \<and>
         is_number (get_prop p ''duration_ms'') \<and>
         is_boolean (get_prop p ''ai_present'') \<and>
         is_boolean (get_prop p ''ai_burst'') \<and>
         is_one_of [''low'', ''medium'', ''high'', ''critical''] (get_prop p ''highest_severity'')
       else if tag = ''issue_created'' then
         is_string (get_prop p ''issue_id'') \<and>
         is_string (get_prop p ''session_id'') \<and>
         is_string (get_prop p ''file_kind'') \<and>
         is_one_of [''secret'', ''mock'', ''phantom''] (get_prop p ''type'') \<and>
         is_one_of [''low'', ''medium'', ''high'', ''critical''] (get_prop p ''severity'') \<and>
         is_string (get_prop p ''recommendation'')
       else if tag = ''issue_resolved'' then
         is_string (get_prop p ''issue_id'') \<and>
         is_one_of [''fixed'', ''ignored'', ''allowlisted''] (get_prop p ''resolution'')
       else if tag = ''session_restored'' then
         is_string (get_prop p ''session_id'') \<and>
         is_string_array (get_prop p ''files_restored'') \<and>
         is_number (get_prop p ''time_to_restore_ms'') \<and>
         is_string (get_prop p ''reason'')
       else if tag = ''policy_changed'' then
         is_string (get_prop p ''pattern'') \<and>
         is_one_of [''watch'', ''warn'', ''block'', ''unprotected''] (get_prop p ''from'') \<and>
         is_one_of [''watch'', ''warn'', ''block'', ''unprotected''] (get_prop p ''to'') \<and>
         is_string (get_prop p ''source'')
       else False))"

definition optional_ai_fields_conform :: "jsval \<Rightarrow> bool" where
  "optional_ai_fields_conform p =
     (absent_or (is_one_of [''none'', ''light'', ''medium'', ''heavy'', ''unknown''])
        (get_prop p ''ai_assist_level'') \<and>
      absent_or (is_number_between 0 10) (get_prop p ''ai_confidence_score'') \<and>
      absent_or (is_one_of [''cursor'', ''claude'', ''unknown'', ''none''])
        (get_prop p ''ai_provider'') \<and>
      absent_or is_count (get_prop p ''ai_large_insert_count'') \<and>
      absent_or is_count (get_prop p ''ai_total_chars''))"

text \<open>The parsed event of a candidate: its own envelope fields where it has them, the defaults otherwise.\<close>

definition with_defaults :: "nat \<Rightarrow> jsval \<Rightarrow> CoreProperties \<Rightarrow> CoreTelemetryEvent" where
  "with_defaults now c ps =
     \<lparr>event_version = (case get_prop c ''event_version'' of JStr s \<Rightarrow> s | _ \<Rightarrow> ''1.0.0''),
      timestamp = (case get_prop c ''timestamp'' of JNum n \<Rightarrow> n | _ \<Rightarrow> Num (real now)),
      properties = ps\<rparr>"

definition defaults_supplied :: "nat \<Rightarrow> jsval \<Rightarrow> CoreTelemetryEvent \<Rightarrow> bool" where
  "defaults_supplied now c e =
     ((get_prop c ''event_version'' = JUndefined \<longrightarrow> event_version e = ''1.0.0'') \<and>
      (get_prop c ''timestamp'' = JUndefined \<longrightarrow> timestamp e = Num (real now)))"

section \<open>Properties of the trigger bitmask codec\<close>

lemma and_1_bit: "(w AND 1 \<noteq> 0) = bit (w::32 word) 0"
  by (simp add: and_one_eq bit_0 word_neq_0_conv mod_2_eq_odd)

lemma and_2_bit: "(w AND 2 \<noteq> 0) = bit (w::32 word) 1"
  using and_exp_eq_0_iff_not_bit[of w 1] by simp

lemma and_4_bit: "(w AND 4 \<noteq> 0) = bit (w::32 word) 2"
  using and_exp_eq_0_iff_not_bit[of w 2] by simp

lemma and_8_bit: "(w AND 8 \<noteq> 0) = bit (w::32 word) 3"
  using and_exp_eq_0_iff_not_bit[of w 3] by simp

lemma decode_bits:
  "decodeTriggerBitmask w =
     (if bit w 0 then [Filewatch] else []) @ (if bit w 1 then [PreCommit] else []) @
     (if bit w 2 then [Manual] else []) @ (if bit w 3 then [IdleFinalize] else [])"
  unfolding decodeTriggerBitmask_def and_1_bit and_2_bit and_4_bit and_8_bit ..

lemma bit_1_word: "bit (1::32 word) n = (n = 0)"
  by (simp add: bit_1_iff)

lemma bit_2_word: "bit (2::32 word) n = (n = 1)"
  using bit_exp_iff[where ?'a="32 word" and m=1 and n=n] by (auto simp: possible_bit_word)

lemma bit_4_word: "bit (4::32 word) n = (n = 2)"
  using bit_exp_iff[where ?'a="32 word" and m=2 and n=n] by (auto simp: possible_bit_word)

lemma bit_8_word: "bit (8::32 word) n = (n = 3)"
  using bit_exp_iff[where ?'a="32 word" and m=3 and n=n] by (auto simp: possible_bit_word)

lemma bit_encode_step:
  "bit (encode_step w t) n =
     (bit w n \<or> n = (case t of Filewatch \<Rightarrow> 0 | PreCommit \<Rightarrow> 1 | Manual \<Rightarrow> 2 | IdleFinalize \<Rightarrow> 3))"
  by (cases t)
     (simp_all only: encode_step.simps SessionTrigger.case bit_or_iff
        bit_1_word bit_2_word bit_4_word bit_8_word)

text \<open>The loop sets exactly the bits of the triggers it meets, on top of the mask it starts from.\<close>

lemma bit_encode_loop:
  "bit (encode_loop w ts) n =
     (bit w n \<or> (n = 0 \<and> Filewatch \<in> set ts) \<or> (n = 1 \<and> PreCommit \<in> set ts)
      \<or> (n = 2 \<and> Manual \<in> set ts) \<or> (n = 3 \<and> IdleFinalize \<in> set ts))"
proof (induction ts arbitrary: w)
  case Nil
  show ?case by simp
next
  case (Cons t ts)
  show ?case unfolding encode_loop.simps Cons.IH bit_encode_step by (cases t) auto
qed

text \<open>One round trip keeps the triggers that occur, once each, in the order of their bits.\<close>

lemma decode_encode:
  "decodeTriggerBitmask (encodeTriggerBitmask ts) =
     filter (\<lambda>t. t \<in> set ts) [Filewatch, PreCommit, Manual, IdleFinalize]"
  by (simp add: decode_bits encodeTriggerBitmask_def bit_encode_loop)

lemma set_decode_encode: "set (decodeTriggerBitmask (encodeTriggerBitmask ts)) = set ts"
proof -
  have "t \<in> set [Filewatch, PreCommit, Manual, IdleFinalize]" for t
    by (cases t) simp_all
  then have univ: "set [Filewatch, PreCommit, Manual, IdleFinalize] = UNIV"
    by blast
  show ?thesis unfolding decode_encode set_filter univ by simp
qed

text \<open>
  Claim C6. Decoding the encoding of a decoded encoding gives the decoded encoding again,
  for every list of triggers (duplicates and the empty list included); the empty list
  encodes to 0 and 0 decodes to the empty list.
\<close>

theorem codec_roundtrip_idempotent:
  "decodeTriggerBitmask (encodeTriggerBitmask (decodeTriggerBitmask (encodeTriggerBitmask ts)))
     = decodeTriggerBitmask (encodeTriggerBitmask ts)
   \<and> encodeTriggerBitmask [] = 0 \<and> decodeTriggerBitmask 0 = []"
proof -
  have "decodeTriggerBitmask (encodeTriggerBitmask (decodeTriggerBitmask (encodeTriggerBitmask ts)))
     = decodeTriggerBitmask (encodeTriggerBitmask ts)"
    unfolding decode_encode[of "decodeTriggerBitmask (encodeTriggerBitmask ts)"] set_decode_encode
    by (simp only: decode_encode)
  moreover have "encodeTriggerBitmask [] = 0"
    by (simp add: encodeTriggerBitmask_def)
  moreover have "decodeTriggerBitmask 0 = []"
    by (simp add: decodeTriggerBitmask_def)
  ultimately show ?thesis by simp
qed

section \<open>Properties of the risk score conversion\<close>

lemma clamp_Num: "Math_min (Num 10) (Math_max (Num 0) (Num r)) = Num (min 10 (max 0 r))"
  by (simp add: min_def max_def)

lemma clamp_in_0_10: "s \<noteq> NaN \<Longrightarrow> in_0_10 (Math_min (Num 10) (Math_max (Num 0) s))"
  by (cases s) (simp_all add: clamp_Num)

lemma times_10_NaN: "num_times s (Num 10) = NaN \<longleftrightarrow> s = NaN"
  by (cases s) simp_all

lemma divide_10_NaN: "num_divide s (Num 10) = NaN \<longleftrightarrow> s = NaN"
  by (cases s) simp_all

text \<open>
  Claim C7. On the canonical scale \<^verbatim>\<open>getSeverity\<close> gives low on [0,3), medium on [3,5),
  high on [5,7) and critical on [7,10], each bucket starting at its lower bound; the
  scores 2.9, 3.0, 6.9, 7.0 and 10 fall in low, medium, high, critical and critical.
\<close>

theorem getSeverity_buckets:
  "(0 \<le> r \<and> r < 3 \<longrightarrow> getSeverity (Num r) = Low) \<and>
   (3 \<le> r \<and> r < 5 \<longrightarrow> getSeverity (Num r) = Medium) \<and>
   (5 \<le> r \<and> r < 7 \<longrightarrow> getSeverity (Num r) = High) \<and>
   (7 \<le> r \<and> r \<le> 10 \<longrightarrow> getSeverity (Num r) = Critical) \<and>
   getSeverity (Num 2.9) = Low \<and> getSeverity (Num 3.0) = Medium \<and>
   getSeverity (Num 6.9) = High \<and> getSeverity (Num 7.0) = Critical \<and>
   getSeverity (Num 10) = Critical"
  unfolding getSeverity_def clamp_Num Let_def by (simp add: min_def max_def)

theorem getSeverity_buckets_witness:
  "getSeverity (Num 1) = Low \<and> getSeverity (Num 4) = Medium \<and>
   getSeverity (Num 6) = High \<and> getSeverity (Num 8) = Critical"
  using getSeverity_buckets [of 1] getSeverity_buckets [of 4]
    getSeverity_buckets [of 6] getSeverity_buckets [of 8]
  by simp

text \<open>A NaN score comes back as NaN on each of the three scales.\<close>

lemma normalizeRiskScore_NaN: "normalizeRiskScore NaN fromScale = NaN"
  by (cases fromScale)
     (simp_all add: convertRisk_0_1_to_0_10_def convertRisk_0_100_to_0_10_def)

text \<open>
  Claim C8, as stated, fails at NaN: \<^verbatim>\<open>Math.max(0, NaN)\<close> is NaN and so is
  \<^verbatim>\<open>Math.min(10, NaN)\<close>, so a NaN score comes back as NaN, which is in no interval.
\<close>

theorem normalizeRiskScore_NaN_counterexample:
  "normalizeRiskScore NaN Scale_0_10 = NaN \<and> \<not> in_0_10 (normalizeRiskScore NaN Scale_0_10)"
  by simp

text \<open>
  Claim C8, amended. For every score other than NaN (negative, out-of-range and infinite
  scores included) and each of the three source scales, \<^verbatim>\<open>normalizeRiskScore\<close> returns a
  value of the closed interval [0,10]; the function is total, so nothing is thrown. In
  particular -5 on the 0-1 scale gives 0, 2 on the 0-1 scale gives 10 and 150 on the
  0-100 scale gives 10.
\<close>

theorem normalizeRiskScore_clamped:
  "score \<noteq> NaN \<Longrightarrow>
     in_0_10 (normalizeRiskScore score fromScale) \<and>
     normalizeRiskScore (Num (-5)) Scale_0_1 = Num 0 \<and>
     normalizeRiskScore (Num 2) Scale_0_1 = Num 10 \<and>
     normalizeRiskScore (Num 150) Scale_0_100 = Num 10"
  by (cases fromScale)
     (simp_all add: convertRisk_0_1_to_0_10_def convertRisk_0_100_to_0_10_def
        clamp_in_0_10 times_10_NaN divide_10_NaN)

theorem normalizeRiskScore_clamped_witness:
  "in_0_10 (normalizeRiskScore (Num 2) Scale_0_1) \<and>
   in_0_10 (normalizeRiskScore PosInfinity Scale_0_100) \<and>
   in_0_10 (normalizeRiskScore (Num (-5)) Scale_0_10)"
  using normalizeRiskScore_clamped [of "Num 2" Scale_0_1]
    normalizeRiskScore_clamped [of PosInfinity Scale_0_100]
    normalizeRiskScore_clamped [of "Num (-5)" Scale_0_10]
  by simp

section \<open>Properties of the validator\<close>

lemma z_string_ok: "is_string v \<Longrightarrow> z_string v \<noteq> None"
  by (cases v) simp_all

lemma z_boolean_ok: "is_boolean v \<Longrightarrow> z_boolean v \<noteq> None"
  by (cases v) simp_all

lemma z_number_ok: "is_number v \<Longrightarrow> z_number v \<noteq> None"
  by (cases v) simp_all

lemma z_enum_ok: "is_one_of (map fst table) v \<Longrightarrow> z_enum table v \<noteq> None"
proof (cases v)
  case (JStr s)
  assume "is_one_of (map fst table) v"
  with JStr have "s \<in> fst ` set table" by simp
  then obtain x where "map_of table s = Some x"
    by (metis domD dom_map_of_conv_image_fst)
  with JStr show ?thesis by simp
qed simp_all

lemma z_array_string_ok: "is_string_array v \<Longrightarrow> z_array_string v \<noteq> None"
proof (cases v)
  case (JArr vs)
  assume "is_string_array v"
  with JArr have "list_all is_string vs" by simp
  then have "list_all (\<lambda>v. z_string v \<noteq> None) vs"
    by (auto simp: list_all_iff dest: z_string_ok)
  with JArr show ?thesis by simp
qed simp_all

lemma z_optional_enum_ok:
  "absent_or (is_one_of (map fst table)) v \<Longrightarrow> z_optional (z_enum table) v \<noteq> None"
  using z_enum_ok[of table v] by (auto simp: absent_or_def z_optional_def)

lemma z_optional_between_ok:
  "absent_or (is_number_between lo hi) v \<Longrightarrow> z_optional (z_number_min_max lo hi) v \<noteq> None"
proof (cases "v = JUndefined")
  case False
  assume "absent_or (is_number_between lo hi) v"
  with False have "is_number_between lo hi v" by (simp add: absent_or_def)
  then obtain r where "v = JNum (Num r)" "lo \<le> r" "r \<le> hi"
    by (cases "(lo, hi, v)" rule: is_number_between.cases) simp_all
  then show ?thesis by (simp add: z_optional_def z_number_min_max_def)
qed (simp add: z_optional_def)

lemma z_optional_count_ok:
  "absent_or is_count v \<Longrightarrow> z_optional (z_number_int_min 0) v \<noteq> None"
proof (cases "v = JUndefined")
  case False
  assume "absent_or is_count v"
  with False have "is_count v" by (simp add: absent_or_def)
  then obtain r where r: "v = JNum (Num r)" "r \<in> \<int>" "0 \<le> r"
    by (cases v rule: is_count.cases) simp_all
  then have "r = of_int \<lfloor>r\<rfloor>" by (auto simp: Ints_def)
  with r show ?thesis by (simp add: z_optional_def z_number_int_min_def)
qed (simp add: z_optional_def)

lemmas field_ok = z_string_ok z_boolean_ok z_number_ok z_enum_ok z_array_string_ok
  z_optional_enum_ok z_optional_between_ok z_optional_count_ok

lemma SaveAttempt_conforms:
  "conforms ''save_attempt'' p \<Longrightarrow> SaveAttempt_properties p \<noteq> None"
  by (simp add: conforms_def SaveAttempt_properties_def bind_eq_None_conv field_ok)

lemma SnapshotCreated_conforms:
  "conforms ''snapshot_created'' p \<Longrightarrow> SnapshotCreated_properties p \<noteq> None"
  by (simp add: conforms_def SnapshotCreated_properties_def bind_eq_None_conv field_ok)

lemma V1_SessionFinalized_conforms:
  "conforms ''session_finalized'' p \<Longrightarrow> V1_SessionFinalized_properties p \<noteq> None"
  by (simp add: conforms_def V1_SessionFinalized_properties_def bind_eq_None_conv field_ok)

lemma SessionFinalized_conforms:
  "conforms ''session_finalized'' p \<Longrightarrow> optional_ai_fields_conform p \<Longrightarrow>
     SessionFinalized_properties p \<noteq> None"
  by (simp add: conforms_def optional_ai_fields_conform_def SessionFinalized_properties_def
        bind_eq_None_conv field_ok)

lemma IssueCreated_conforms:
  "conforms ''issue_created'' p \<Longrightarrow> IssueCreated_properties p \<noteq> None"
  by (simp add: conforms_def IssueCreated_properties_def bind_eq_None_conv field_ok)

lemma IssueResolved_conforms:
  "conforms ''issue_resolved'' p \<Longrightarrow> IssueResolved_properties p \<noteq> None"
  by (simp add: conforms_def IssueResolved_properties_def bind_eq_None_conv field_ok)

lemma SessionRestored_conforms:
  "conforms ''session_restored'' p \<Longrightarrow> SessionRestored_properties p \<noteq> None"
  by (simp add: conforms_def SessionRestored_properties_def bind_eq_None_conv field_ok)

lemma PolicyChanged_conforms:
  "conforms ''policy_changed'' p \<Longrightarrow> PolicyChanged_properties p \<noteq> None"
  by (simp add: conforms_def PolicyChanged_properties_def bind_eq_None_conv field_ok)

text \<open>What an event schema returns once its properties schema accepts.\<close>

lemma event_schema_Some:
  assumes "is_object c" and "get_prop c ''event'' = JStr tag"
    and "properties_schema (get_prop c ''properties'') = Some ps"
    and "absent_or is_string (get_prop c ''event_version'')"
    and "absent_or is_number (get_prop c ''timestamp'')"
  shows "event_schema tag properties_schema now c =
           Some \<lparr>event_version = (case get_prop c ''event_version'' of JStr s \<Rightarrow> s | _ \<Rightarrow> ''1.0.0''),
                 timestamp = (case get_prop c ''timestamp'' of JNum n \<Rightarrow> n | _ \<Rightarrow> Num (real now)),
                 properties = ps\<rparr>"
proof -
  have v: "z_default z_string EVENT_VERSION (get_prop c ''event_version'') =
             Some (case get_prop c ''event_version'' of JStr s \<Rightarrow> s | _ \<Rightarrow> ''1.0.0'')"
    using assms(4) by (cases "get_prop c ''event_version''")
      (simp_all add: absent_or_def z_default_def EVENT_VERSION_def)
  have t: "z_default z_number (Num (real now)) (get_prop c ''timestamp'') =
             Some (case get_prop c ''timestamp'' of JNum n \<Rightarrow> n | _ \<Rightarrow> Num (real now))"
    using assms(5) by (cases "get_prop c ''timestamp''")
      (simp_all add: absent_or_def z_default_def)
  show ?thesis
    unfolding event_schema_def by (simp add: assms(1,2,3) v t)
qed


lemma discriminatedUnion_member:
  "is_object c \<Longrightarrow> get_prop c ''event'' = JStr tag \<Longrightarrow> map_of members tag = Some schema \<Longrightarrow>
     discriminatedUnion members now c = schema now c"
  by (simp add: discriminatedUnion_def)

lemma union_conforming:
  assumes c: "is_object c" "get_prop c ''event'' = JStr tag"
    and tag: "tag \<in> set CORE_TELEMETRY_EVENTS"
    and props: "conforms tag (get_prop c ''properties'')"
    and base: "absent_or is_string (get_prop c ''event_version'')"
      "absent_or is_number (get_prop c ''timestamp'')"
    and sf: "tag = ''session_finalized'' \<Longrightarrow> session_finalized (get_prop c ''properties'') \<noteq> None"
  shows "\<exists>ps. discriminatedUnion
           [(''save_attempt'', SaveAttemptSchema),
            (''snapshot_created'', SnapshotCreatedSchema),
            (''session_finalized'', event_schema ''session_finalized'' session_finalized),
            (''issue_created'', IssueCreatedSchema),
            (''issue_resolved'', IssueResolvedSchema),
            (''session_restored'', SessionRestoredSchema),
            (''policy_changed'', PolicyChangedSchema)] now c = Some (with_defaults now c ps)"
proof -
  note es = event_schema_Some[OF c _ base, where now=now, folded with_defaults_def]
  note du = discriminatedUnion_member[OF c, of _ _ now]
  from tag have "tag = ''save_attempt'' \<or> tag = ''snapshot_created''
    \<or> tag = ''session_finalized'' \<or> tag = ''issue_created'' \<or> tag = ''issue_resolved''
    \<or> tag = ''session_restored'' \<or> tag = ''policy_changed''"
    unfolding CORE_TELEMETRY_EVENTS_def by (simp only: list.set insert_iff empty_iff simp_thms)
  then show ?thesis
  proof (elim disjE)
    assume t1: "tag = ''save_attempt''"
    with props obtain ps where "SaveAttempt_properties (get_prop c ''properties'') = Some ps"
      using SaveAttempt_conforms by blast
    from es[where properties_schema=SaveAttempt_properties, OF this] t1 show ?thesis by (intro exI[of _ ps]) (simp add: du)
  next
    assume t2: "tag = ''snapshot_created''"
    with props obtain ps where "SnapshotCreated_properties (get_prop c ''properties'') = Some ps"
      using SnapshotCreated_conforms by blast
    from es[where properties_schema=SnapshotCreated_properties, OF this] t2 show ?thesis by (intro exI[of _ ps]) (simp add: du)
  next
    assume t3: "tag = ''session_finalized''"
    with sf obtain ps where "session_finalized (get_prop c ''properties'') = Some ps"
      by blast
    from es[where properties_schema=session_finalized, OF this] t3 show ?thesis by (intro exI[of _ ps]) (simp add: du)
  next
    assume t4: "tag = ''issue_created''"
    with props obtain ps where "IssueCreated_properties (get_prop c ''properties'') = Some ps"
      using IssueCreated_conforms by blast
    from es[where properties_schema=IssueCreated_properties, OF this] t4 show ?thesis by (intro exI[of _ ps]) (simp add: du)
  next
    assume t5: "tag = ''issue_resolved''"
    with props obtain ps where "IssueResolved_properties (get_prop c ''properties'') = Some ps"
      using IssueResolved_conforms by blast
    from es[where properties_schema=IssueResolved_properties, OF this] t5 show ?thesis by (intro exI[of _ ps]) (simp add: du)
  next
    assume t6: "tag = ''session_restored''"
    with props obtain ps where "SessionRestored_properties (get_prop c ''properties'') = Some ps"
      using SessionRestored_conforms by blast
    from es[where properties_schema=SessionRestored_properties, OF this] t6 show ?thesis by (intro exI[of _ ps]) (simp add: du)
  next
    assume t7: "tag = ''policy_changed''"
    with props obtain ps where "PolicyChanged_properties (get_prop c ''properties'') = Some ps"
      using PolicyChanged_conforms by blast
    from es[where properties_schema=PolicyChanged_properties, OF this] t7 show ?thesis by (intro exI[of _ ps]) (simp add: du)
  qed
qed


lemma defaults_supplied_with_defaults: "defaults_supplied now c (with_defaults now c ps)"
  by (simp add: defaults_supplied_def with_defaults_def)

text \<open>
  Claim C9. A candidate that is an object, carries one of the seven canonical tags and
  whose properties conform to that tag (every required field of its type; for
  \<^verbatim>\<open>session_finalized\<close> under events/core.ts also every optional field absent or within its
  declared type and range) is accepted by both validators when \<^verbatim>\<open>event_version\<close> and
  \<^verbatim>\<open>timestamp\<close> are absent or of their type: the validator returns true, the error
  helper returns null, and the parsed event carries the version 1.0.0 and the capture
  time in place of an absent field.
\<close>

theorem validation_accepts_absent_envelope:
  assumes "is_object c" and "get_prop c ''event'' = JStr tag"
    and "tag \<in> set CORE_TELEMETRY_EVENTS"
    and "conforms tag (get_prop c ''properties'')"
    and "absent_or is_string (get_prop c ''event_version'')"
    and "absent_or is_number (get_prop c ''timestamp'')"
  shows "V1_validateCoreTelemetryEvent now c \<and> V1_getCoreEventValidationError now c = None \<and>
         (\<exists>e. V1_CoreEventSchema now c = Some e \<and> defaults_supplied now c e) \<and>
         ((tag = ''session_finalized'' \<longrightarrow> optional_ai_fields_conform (get_prop c ''properties'')) \<longrightarrow>
            validateCoreTelemetryEvent now c \<and> getCoreEventValidationError now c = None \<and>
            (\<exists>e. CoreEventSchema now c = Some e \<and> defaults_supplied now c e))"
proof -
  have "tag = ''session_finalized'' \<Longrightarrow> V1_SessionFinalized_properties (get_prop c ''properties'') \<noteq> None"
    using assms(4) V1_SessionFinalized_conforms by blast
  from union_conforming[where session_finalized=V1_SessionFinalized_properties, OF assms this, of now]
  obtain ps where v1: "V1_CoreEventSchema now c = Some (with_defaults now c ps)"
    unfolding V1_CoreEventSchema_def by blast
  have part1: "V1_validateCoreTelemetryEvent now c \<and> V1_getCoreEventValidationError now c = None \<and>
         (\<exists>e. V1_CoreEventSchema now c = Some e \<and> defaults_supplied now c e)"
    by (simp add: V1_validateCoreTelemetryEvent_def V1_getCoreEventValidationError_def v1
          defaults_supplied_with_defaults)
  have part2: "validateCoreTelemetryEvent now c \<and> getCoreEventValidationError now c = None \<and>
            (\<exists>e. CoreEventSchema now c = Some e \<and> defaults_supplied now c e)"
    if opt: "tag = ''session_finalized'' \<longrightarrow> optional_ai_fields_conform (get_prop c ''properties'')"
  proof -
    have "tag = ''session_finalized'' \<Longrightarrow> SessionFinalized_properties (get_prop c ''properties'') \<noteq> None"
      using assms(4) opt SessionFinalized_conforms by blast
    from union_conforming[where session_finalized=SessionFinalized_properties, OF assms this, of now]
    obtain ps where core: "CoreEventSchema now c = Some (with_defaults now c ps)"
      unfolding CoreEventSchema_def by blast
    show ?thesis
      by (simp add: validateCoreTelemetryEvent_def getCoreEventValidationError_def core
            defaults_supplied_with_defaults)
  qed
  from part1 part2 show ?thesis by blast
qed


theorem validation_accepts_absent_envelope_witness:
  "V1_CoreEventSchema 1620000000000
     (JObj [(''event'', JStr ''session_finalized''),
            (''properties'', JObj [(''session_id'', JStr ''sess_12345''),
               (''files'', JArr [JStr ''src/index.ts'']), (''triggers'', JArr []),
               (''duration_ms'', JNum (Num 120000)), (''ai_present'', JBool False),
               (''ai_burst'', JBool False), (''highest_severity'', JStr ''low''),
               (''ai_confidence_score'', JNum (Num 7.5))])])
     = Some \<lparr>event_version = ''1.0.0'', timestamp = Num 1620000000000,
              properties = SessionFinalizedProps ''sess_12345'' [''src/index.ts''] [] (Num 120000)
                 False False Low None None None None None\<rparr>
   \<and> CoreEventSchema 1620000000000
     (JObj [(''event'', JStr ''session_finalized''),
            (''properties'', JObj [(''session_id'', JStr ''sess_12345''),
               (''files'', JArr [JStr ''src/index.ts'']), (''triggers'', JArr []),
               (''duration_ms'', JNum (Num 120000)), (''ai_present'', JBool False),
               (''ai_burst'', JBool False), (''highest_severity'', JStr ''low''),
               (''ai_confidence_score'', JNum (Num 7.5))])])
     = Some \<lparr>event_version = ''1.0.0'', timestamp = Num 1620000000000,
              properties = SessionFinalizedProps ''sess_12345'' [''src/index.ts''] [] (Num 120000)
                 False False Low None (Some (Num 7.5)) None None None\<rparr>
   \<and> V1_validateCoreTelemetryEvent 1620000000000
     (JObj [(''event'', JStr ''session_finalized''),
            (''properties'', JObj [(''session_id'', JStr ''sess_12345''),
               (''files'', JArr [JStr ''src/index.ts'']), (''triggers'', JArr []),
               (''duration_ms'', JNum (Num 120000)), (''ai_present'', JBool False),
               (''ai_burst'', JBool False), (''highest_severity'', JStr ''low''),
               (''ai_confidence_score'', JNum (Num 7.5))])])
   \<and> validateCoreTelemetryEvent 1620000000000
     (JObj [(''event'', JStr ''session_finalized''),
            (''properties'', JObj [(''session_id'', JStr ''sess_12345''),
               (''files'', JArr [JStr ''src/index.ts'']), (''triggers'', JArr []),
               (''duration_ms'', JNum (Num 120000)), (''ai_present'', JBool False),
               (''ai_burst'', JBool False), (''highest_severity'', JStr ''low''),
               (''ai_confidence_score'', JNum (Num 7.5))])])"
proof -
  define c where "c = JObj [(''event'', JStr ''session_finalized''),
            (''properties'', JObj [(''session_id'', JStr ''sess_12345''),
               (''files'', JArr [JStr ''src/index.ts'']), (''triggers'', JArr []),
               (''duration_ms'', JNum (Num 120000)), (''ai_present'', JBool False),
               (''ai_burst'', JBool False), (''highest_severity'', JStr ''low''),
               (''ai_confidence_score'', JNum (Num 7.5))])]"
  have h1: "is_object c" by (simp add: c_def)
  have h2: "get_prop c ''event'' = JStr ''session_finalized''" by (simp add: c_def)
  have h3: "''session_finalized'' \<in> set CORE_TELEMETRY_EVENTS" by (simp add: CORE_TELEMETRY_EVENTS_def)
  have h4: "conforms ''session_finalized'' (get_prop c ''properties'')"
    by (simp add: c_def conforms_def)
  have h5: "absent_or is_string (get_prop c ''event_version'')" by (simp add: c_def absent_or_def)
  have h6: "absent_or is_number (get_prop c ''timestamp'')" by (simp add: c_def absent_or_def)
  have h7: "optional_ai_fields_conform (get_prop c ''properties'')"
    by (simp add: c_def optional_ai_fields_conform_def absent_or_def)
  note inst = validation_accepts_absent_envelope[OF h1 h2 h3 h4 h5 h6, of 1620000000000]
  have v1: "V1_CoreEventSchema 1620000000000 c = Some \<lparr>event_version = ''1.0.0'', timestamp = Num 1620000000000,
              properties = SessionFinalizedProps ''sess_12345'' [''src/index.ts''] [] (Num 120000)
                 False False Low None None None None None\<rparr>"
    by (simp add: c_def V1_CoreEventSchema_def discriminatedUnion_def event_schema_def
          V1_SessionFinalized_properties_def z_default_def EVENT_VERSION_def)
  have core: "CoreEventSchema 1620000000000 c = Some \<lparr>event_version = ''1.0.0'', timestamp = Num 1620000000000,
              properties = SessionFinalizedProps ''sess_12345'' [''src/index.ts''] [] (Num 120000)
                 False False Low None (Some (Num 7.5)) None None None\<rparr>"
    by (simp add: c_def CoreEventSchema_def discriminatedUnion_def event_schema_def
          SessionFinalized_properties_def z_default_def z_optional_def z_number_min_max_def EVENT_VERSION_def)
  from inst h7 v1 core show ?thesis unfolding c_def by simp
qed

text \<open>The literal of \<^verbatim>\<open>event\<close> and the constructor of the parsed properties agree.\<close>

lemma properties_schema_name:
  "SaveAttempt_properties p = Some ps \<Longrightarrow> core_event_name ps = ''save_attempt''"
  "SnapshotCreated_properties p = Some ps \<Longrightarrow> core_event_name ps = ''snapshot_created''"
  "SessionFinalized_properties p = Some ps \<Longrightarrow> core_event_name ps = ''session_finalized''"
  "V1_SessionFinalized_properties p = Some ps \<Longrightarrow> core_event_name ps = ''session_finalized''"
  "IssueCreated_properties p = Some ps \<Longrightarrow> core_event_name ps = ''issue_created''"
  "IssueResolved_properties p = Some ps \<Longrightarrow> core_event_name ps = ''issue_resolved''"
  "SessionRestored_properties p = Some ps \<Longrightarrow> core_event_name ps = ''session_restored''"
  "PolicyChanged_properties p = Some ps \<Longrightarrow> core_event_name ps = ''policy_changed''"
  by (auto simp: SaveAttempt_properties_def SnapshotCreated_properties_def
        SessionFinalized_properties_def V1_SessionFinalized_properties_def
        IssueCreated_properties_def IssueResolved_properties_def SessionRestored_properties_def
        PolicyChanged_properties_def bind_eq_Some_conv split: if_splits)

lemma event_schema_properties:
  "event_schema tag properties_schema now v = Some c \<Longrightarrow>
     get_prop v ''event'' = JStr tag \<and> properties_schema (get_prop v ''properties'') = Some (properties c)"
  by (auto simp: event_schema_def bind_eq_Some_conv split: if_splits)

lemma discriminatedUnion_Some:
  "discriminatedUnion members now v = Some c \<Longrightarrow>
     \<exists>tag schema. get_prop v ''event'' = JStr tag \<and> map_of members tag = Some schema \<and> schema now v = Some c"
  by (auto simp: discriminatedUnion_def split: if_splits jsval.splits option.splits)

lemma CoreEventSchema_name:
  assumes "CoreEventSchema now v = Some c"
  shows "get_prop v ''event'' = JStr (core_event_name (properties c))"
proof -
  from assms obtain tag schema where t: "get_prop v ''event'' = JStr tag"
    and m: "map_of [(''save_attempt'', SaveAttemptSchema),
        (''snapshot_created'', SnapshotCreatedSchema),
        (''session_finalized'', SessionFinalizedSchema),
        (''issue_created'', IssueCreatedSchema),
        (''issue_resolved'', IssueResolvedSchema),
        (''session_restored'', SessionRestoredSchema),
        (''policy_changed'', PolicyChangedSchema)] tag = Some schema" and s: "schema now v = Some c"
    unfolding CoreEventSchema_def by (blast dest: discriminatedUnion_Some)
  from m have "(tag, schema) \<in> set [(''save_attempt'', SaveAttemptSchema),
        (''snapshot_created'', SnapshotCreatedSchema),
        (''session_finalized'', SessionFinalizedSchema),
        (''issue_created'', IssueCreatedSchema),
        (''issue_resolved'', IssueResolvedSchema),
        (''session_restored'', SessionRestoredSchema),
        (''policy_changed'', PolicyChangedSchema)]"
    by (rule map_of_SomeD)
  then have "\<exists>P. schema = event_schema tag P \<and> (\<forall>p ps. P p = Some ps \<longrightarrow> core_event_name ps = tag)"
    by (simp only: list.set insert_iff empty_iff prod.inject simp_thms)
       (elim disjE conjE; intro exI conjI; (assumption | simp only: properties_schema_name simp_thms)?;
        fastforce dest: properties_schema_name)
  then obtain P where P: "schema = event_schema tag P"
    and n: "\<And>p ps. P p = Some ps \<Longrightarrow> core_event_name ps = tag" by blast
  from s P event_schema_properties have "P (get_prop v ''properties'') = Some (properties c)" by blast
  with n t show ?thesis by simp
qed

section \<open>Properties of the mappers\<close>

lemma String_includes_sublist: "String_includes s pat = sublist pat s"
  by (induction s) (simp_all add: sublist_Cons_right)

lemma js_replace_suffix:
  "pat \<noteq> [] \<Longrightarrow> \<not> sublist pat (base @ butlast pat) \<Longrightarrow> js_replace pat rep (base @ pat) = base @ rep"
proof (induction base)
  case Nil
  then show ?case by (cases pat) simp_all
next
  case (Cons b base)
  have np: "\<not> prefix pat (b # base @ pat)"
  proof
    assume "prefix pat (b # base @ pat)"
    then have "prefix pat ((b # base @ butlast pat) @ [last pat])"
      using Cons.prems(1) by (simp add: append_butlast_last_id)
    then have "prefix pat (b # base @ butlast pat) \<or> pat = (b # base @ butlast pat) @ [last pat]"
      by (simp only: prefix_snoc disj_commute)
    then have "prefix pat (b # base @ butlast pat)"
    proof
      assume "pat = (b # base @ butlast pat) @ [last pat]"
      then have "length pat = length ((b # base @ butlast pat) @ [last pat])" by simp
      then show ?thesis by simp
    qed
    then have "sublist pat (b # base @ butlast pat)" by (rule prefix_imp_sublist)
    with Cons.prems(2) show False by simp
  qed
  have "\<not> sublist pat (base @ butlast pat)"
    using Cons.prems(2) by (auto simp: sublist_Cons_right)
  with Cons.IH Cons.prems(1) np show ?case by simp
qed

lemma decimal_example: "decimal 1700000000000 = ''1700000000000''"
  by (simp add: decimal.simps)

lemma event_schema_timestamp:
  assumes "event_schema tag ps now (JObj kvs) = Some c" and "map_of kvs ''timestamp'' = Some (JNum ts)"
  shows "timestamp c = ts"
proof -
  from assms(2) have "z_default z_number (Num (real now)) (get_prop (JObj kvs) ''timestamp'')
      = (if ts = NaN then None else Some ts)"
    by (simp add: z_default_def)
  with assms(1) show ?thesis
    by (auto simp: event_schema_def bind_eq_Some_conv split: if_splits)
qed


lemma try_catch_Inl: "try_catch (Inl err) = None"
  by (simp add: try_catch_def)

lemma try_catch_parse: "try_catch (parse schema now v) = schema now v"
  by (simp add: try_catch_def parse_def split: option.splits)

lemma try_parse_timestamp:
  "try_catch (parse (event_schema tag ps) now (JObj kvs)) = Some c \<Longrightarrow>
     map_of kvs ''timestamp'' = Some (JNum ts) \<Longrightarrow> timestamp c = ts"
  unfolding try_catch_parse by (rule event_schema_timestamp)

lemma EventMapper_mapOnboardingProtectionAssigned_timestamp:
  "EventMapper_mapOnboardingProtectionAssigned now event = Some c \<Longrightarrow> timestamp c = legacy_timestamp event"
  unfolding EventMapper_mapOnboardingProtectionAssigned_def
  by (cases event) (simp_all add: try_catch_Inl, erule try_parse_timestamp, simp)

lemma EventMapper_mapSnapshotCreated_timestamp:
  "EventMapper_mapSnapshotCreated now event = Some c \<Longrightarrow> timestamp c = legacy_timestamp event"
  unfolding EventMapper_mapSnapshotCreated_def
  by (cases event) (simp_all add: try_catch_Inl, erule try_parse_timestamp, simp)

lemma EventMapper_mapRiskDetected_timestamp:
  "EventMapper_mapRiskDetected now event = Some c \<Longrightarrow> timestamp c = legacy_timestamp event"
  unfolding EventMapper_mapRiskDetected_def
  by (cases event) (simp_all add: try_catch_Inl Let_def, erule try_parse_timestamp, simp)

lemma EventMapper_mapSnapBackUsed_timestamp:
  "EventMapper_mapSnapBackUsed now event = Some c \<Longrightarrow> timestamp c = legacy_timestamp event"
  unfolding EventMapper_mapSnapBackUsed_def
proof (cases event)
  case (SnapBackUsedEvent filesRestored duration success ts)
  assume a: "try_catch (EventMapper_mapSnapBackUsed_try now event) = Some c"
  show ?thesis
  proof (cases "Array_fill filesRestored (JStr ''legacy_file'')")
    case (Inl err)
    with a SnapBackUsedEvent show ?thesis by (simp add: try_catch_Inl)
  next
    case (Inr files)
    with a SnapBackUsedEvent show ?thesis
      apply simp
      apply (erule try_parse_timestamp)
      apply simp
      done
  qed
qed (simp_all add: try_catch_Inl)


lemma EventMapper_mapEvent_timestamp:
  assumes "EventMapper_mapEvent now event = Inr (Some c)"
  shows "timestamp c = legacy_timestamp event"
  using assms unfolding EventMapper_mapEvent_def
  by (auto split: SwitchCase.splits
      dest: EventMapper_mapOnboardingProtectionAssigned_timestamp EventMapper_mapSnapshotCreated_timestamp
        EventMapper_mapSnapBackUsed_timestamp EventMapper_mapRiskDetected_timestamp)

text \<open>In events/migrate.ts the guard by the validator decides what a method returns.\<close>

lemma CoreEventSchema_member:
  "map_of [(''save_attempt'', SaveAttemptSchema),
        (''snapshot_created'', SnapshotCreatedSchema),
        (''session_finalized'', SessionFinalizedSchema),
        (''issue_created'', IssueCreatedSchema),
        (''issue_resolved'', IssueResolvedSchema),
        (''session_restored'', SessionRestoredSchema),
        (''policy_changed'', PolicyChangedSchema)] tag = Some schema \<Longrightarrow>
   map_of kvs ''event'' = Some (JStr tag) \<Longrightarrow>
   CoreEventSchema now (JObj kvs) = schema now (JObj kvs)"
  by (simp add: CoreEventSchema_def discriminatedUnion_def)

lemma return_if_valid_member:
  "CoreEventSchema now v = schema now v \<Longrightarrow> return_if_valid schema now v = Inr (schema now v)"
  by (auto simp: return_if_valid_def validateCoreTelemetryEvent_def parse_def split: option.splits)

lemma return_SaveAttempt:
  "map_of kvs ''event'' = Some (JStr ''save_attempt'') \<Longrightarrow>
     return_if_valid SaveAttemptSchema now (JObj kvs) = Inr (SaveAttemptSchema now (JObj kvs))"
  by (rule return_if_valid_member, rule CoreEventSchema_member) simp_all

lemma return_SnapshotCreated:
  "map_of kvs ''event'' = Some (JStr ''snapshot_created'') \<Longrightarrow>
     return_if_valid SnapshotCreatedSchema now (JObj kvs) = Inr (SnapshotCreatedSchema now (JObj kvs))"
  by (rule return_if_valid_member, rule CoreEventSchema_member) simp_all

lemma return_SessionFinalized:
  "map_of kvs ''event'' = Some (JStr ''session_finalized'') \<Longrightarrow>
     return_if_valid SessionFinalizedSchema now (JObj kvs) = Inr (SessionFinalizedSchema now (JObj kvs))"
  by (rule return_if_valid_member, rule CoreEventSchema_member) simp_all

lemma return_IssueCreated:
  "map_of kvs ''event'' = Some (JStr ''issue_created'') \<Longrightarrow>
     return_if_valid IssueCreatedSchema now (JObj kvs) = Inr (IssueCreatedSchema now (JObj kvs))"
  by (rule return_if_valid_member, rule CoreEventSchema_member) simp_all

lemma return_IssueResolved:
  "map_of kvs ''event'' = Some (JStr ''issue_resolved'') \<Longrightarrow>
     return_if_valid IssueResolvedSchema now (JObj kvs) = Inr (IssueResolvedSchema now (JObj kvs))"
  by (rule return_if_valid_member, rule CoreEventSchema_member) simp_all

lemma return_SessionRestored:
  "map_of kvs ''event'' = Some (JStr ''session_restored'') \<Longrightarrow>
     return_if_valid SessionRestoredSchema now (JObj kvs) = Inr (SessionRestoredSchema now (JObj kvs))"
  by (rule return_if_valid_member, rule CoreEventSchema_member) simp_all

lemmas return_member = return_SaveAttempt return_SnapshotCreated return_SessionFinalized
  return_IssueCreated return_IssueResolved return_SessionRestored


lemma event_schema_timestamp_cases:
  assumes "event_schema tag ps now v = Some c"
  shows "get_prop v ''timestamp'' = JUndefined \<or> get_prop v ''timestamp'' = JNum (timestamp c)"
proof -
  from assms obtain t where t: "z_default z_number (Num (real now)) (get_prop v ''timestamp'') = Some t"
    and c: "timestamp c = t"
    by (auto simp: event_schema_def bind_eq_Some_conv split: if_splits)
  show ?thesis
  proof (cases "get_prop v ''timestamp''")
    case (JNum n)
    with t c show ?thesis by (simp add: z_default_def split: if_splits)
  qed (use t in \<open>simp_all add: z_default_def\<close>)
qed

lemma Migrate_mapOnboardingProtectionAssigned_timestamp:
  "Migrate_mapOnboardingProtectionAssigned now event = Inr (Some c) \<Longrightarrow> timestamp c = legacy_timestamp event"
  unfolding Migrate_mapOnboardingProtectionAssigned_def
  by (cases event) (auto simp: return_member dest!: event_schema_timestamp_cases split: if_splits)

lemma Migrate_mapCommandExecution_timestamp:
  "Migrate_mapCommandExecution now event = Inr (Some c) \<Longrightarrow> timestamp c = legacy_timestamp event"
  unfolding Migrate_mapCommandExecution_def
  by (cases event) (auto simp: return_member dest!: event_schema_timestamp_cases split: if_splits)

lemma Migrate_mapRiskDetected_timestamp:
  "Migrate_mapRiskDetected now event = Inr (Some c) \<Longrightarrow> timestamp c = legacy_timestamp event"
  unfolding Migrate_mapRiskDetected_def
  by (cases event) (auto simp: return_member dest!: event_schema_timestamp_cases split: if_splits)

lemma Migrate_mapWalkthroughStepCompleted_timestamp:
  "Migrate_mapWalkthroughStepCompleted now event = Inr (Some c) \<Longrightarrow> timestamp c = legacy_timestamp event"
  unfolding Migrate_mapWalkthroughStepCompleted_def
  by (cases event) (auto simp: return_member dest!: event_schema_timestamp_cases split: if_splits)

lemma Migrate_mapSnapshotCreated_timestamp:
  "Migrate_mapSnapshotCreated now event = Inr (Some c) \<Longrightarrow> timestamp c = legacy_timestamp event"
  unfolding Migrate_mapSnapshotCreated_def
  by (auto simp: return_member dest!: event_schema_timestamp_cases split: if_splits)

lemma Migrate_mapExtensionDeactivated_timestamp:
  "Migrate_mapExtensionDeactivated now event = Inr (Some c) \<Longrightarrow> timestamp c = legacy_timestamp event"
  unfolding Migrate_mapExtensionDeactivated_def
  by (auto simp: return_member dest!: event_schema_timestamp_cases split: if_splits)

lemma Migrate_mapSnapBackUsed_timestamp:
  "Migrate_mapSnapBackUsed now event = Inr (Some c) \<Longrightarrow> timestamp c = legacy_timestamp event"
  unfolding Migrate_mapSnapBackUsed_def
  by (auto simp: return_member dest!: event_schema_timestamp_cases split: if_splits)

lemma Migrate_mapEvent_timestamp:
  assumes "Migrate_mapEvent now event = Inr (Some c)"
  shows "timestamp c = legacy_timestamp event"
  using assms unfolding Migrate_mapEvent_def
  by (auto split: SwitchCase.splits
      dest: Migrate_mapOnboardingProtectionAssigned_timestamp Migrate_mapCommandExecution_timestamp
        Migrate_mapRiskDetected_timestamp Migrate_mapWalkthroughStepCompleted_timestamp
        Migrate_mapSnapshotCreated_timestamp Migrate_mapExtensionDeactivated_timestamp
        Migrate_mapSnapBackUsed_timestamp)


lemma severity_carried_over:
  assumes "riskLevel \<notin> set Object_prototype_keys"
  shows "z_enum severity_enum (js_or (record_lookup severityMap riskLevel) (JStr ''medium''))
           = Some (spec_severity riskLevel)"
proof -
  have "record_lookup severityMap riskLevel =
          (if riskLevel = ''low'' then JStr ''low''
           else if riskLevel = ''medium'' then JStr ''medium''
           else if riskLevel = ''high'' then JStr ''high''
           else if riskLevel = ''critical'' then JStr ''critical''
           else JUndefined)"
    using assms by (simp add: record_lookup_def)
  then show ?thesis
    by (simp add: js_or_def spec_severity_def)
qed

lemma issue_type_chosen:
  "(if list_ex (\<lambda>p. String_includes p ''mock'' \<or> String_includes p ''test'') patterns then ''mock''
    else if list_ex (\<lambda>p. String_includes p ''phantom'' \<or> String_includes p ''unused'') patterns
    then ''phantom'' else ''secret'') =
   (case spec_issue_type patterns of IssueMock \<Rightarrow> ''mock'' | IssuePhantom \<Rightarrow> ''phantom''
      | IssueSecret \<Rightarrow> ''secret'')"
  by (simp add: spec_issue_type_def String_includes_sublist list_ex_iff)

lemma z_enum_issue_type:
  "z_enum issue_type_enum
     (JStr (case t of IssueMock \<Rightarrow> ''mock'' | IssuePhantom \<Rightarrow> ''phantom'' | IssueSecret \<Rightarrow> ''secret''))
   = Some t"
  by (cases t) simp_all

lemma EventMapper_mapRiskDetected_value:
  assumes "riskLevel \<notin> set Object_prototype_keys"
  shows "EventMapper_mapRiskDetected now (RiskDetectedEvent riskLevel patterns confidence (Num r)) =
     Some \<lparr>event_version = ''1.0.0'', timestamp = Num r,
            properties = IssueCreatedProps (''issue_'' @ decimal now) ''legacy_session'' ''unknown''
               (spec_issue_type patterns) (spec_severity riskLevel) ''Review detected risk pattern''\<rparr>"
  unfolding EventMapper_mapRiskDetected_def EventMapper_mapRiskDetected_try.simps Let_def
    issue_type_chosen try_catch_parse
  by (simp add: event_schema_def IssueCreated_properties_def z_default_def EVENT_VERSION_def
        severity_carried_over[OF assms] z_enum_issue_type del: z_enum.simps)


lemma EventMapper_mapEvent_returns: "\<exists>r. EventMapper_mapEvent now event = Inr r"
  by (simp add: EventMapper_mapEvent_def split: SwitchCase.splits)

lemma Migrate_handlers_return:
  assumes "has_properties event"
  shows "\<exists>r. Migrate_mapOnboardingProtectionAssigned now event = Inr r"
    and "\<exists>r. Migrate_mapCommandExecution now event = Inr r"
    and "\<exists>r. Migrate_mapSnapshotCreated now event = Inr r"
    and "\<exists>r. Migrate_mapExtensionDeactivated now event = Inr r"
    and "\<exists>r. Migrate_mapRiskDetected now event = Inr r"
    and "\<exists>r. Migrate_mapWalkthroughStepCompleted now event = Inr r"
    and "\<exists>r. Migrate_mapSnapBackUsed now event = Inr r"
  using assms
  by (cases event;
      simp add: Migrate_mapOnboardingProtectionAssigned_def Migrate_mapCommandExecution_def
        Migrate_mapSnapshotCreated_def Migrate_mapExtensionDeactivated_def
        Migrate_mapRiskDetected_def Migrate_mapWalkthroughStepCompleted_def
        Migrate_mapSnapBackUsed_def return_member)+

lemma Migrate_mapEvent_returns:
  assumes "has_properties event"
  shows "\<exists>r. Migrate_mapEvent now event = Inr r"
  unfolding Migrate_mapEvent_def
  using Migrate_handlers_return[OF assms, of now]
  by (simp split: SwitchCase.splits)

lemma unrecognized_tag:
  assumes "tag \<notin> set TELEMETRY_EVENTS"
  shows "EventMapper_switch tag = CaseDefault" and "Migrate_switch tag = CaseDefault"
  using assms by (simp_all add: TELEMETRY_EVENTS_def EventMapper_switch_def Migrate_switch_def)

lemma switch_labels:
  "map EventMapper_switch TELEMETRY_EVENTS =
     [CaseDerivedMetricsOnly, CaseDerivedMetricsOnly, CaseDerivedMetricsOnly, CaseSnapshotCreated,
      CaseSnapBackUsed, CaseRiskDetected, CaseDerivedMetricsOnly, CaseDerivedMetricsOnly,
      CaseDerivedMetricsOnly, CaseDerivedMetricsOnly, CaseDerivedMetricsOnly,
      CaseOnboardingProtectionAssigned, CaseDerivedMetricsOnly, CaseDerivedMetricsOnly,
      CaseDerivedMetricsOnly, CaseDerivedMetricsOnly, CaseDerivedMetricsOnly]"
  "map Migrate_switch TELEMETRY_EVENTS =
     [CaseDerivedMetricsOnly, CaseExtensionDeactivated, CaseCommandExecution, CaseSnapshotCreated,
      CaseSnapBackUsed, CaseRiskDetected, CaseDerivedMetricsOnly, CaseDerivedMetricsOnly,
      CaseDerivedMetricsOnly, CaseDerivedMetricsOnly, CaseWalkthroughStepCompleted,
      CaseOnboardingProtectionAssigned, CaseDerivedMetricsOnly, CaseDerivedMetricsOnly,
      CaseDerivedMetricsOnly, CaseDerivedMetricsOnly, CaseDerivedMetricsOnly]"
  by (simp_all add: TELEMETRY_EVENTS_def EventMapper_switch_def Migrate_switch_def)


lemmas schema_eval = event_schema_def z_default_def EVENT_VERSION_def parse_def
  record_lookup_def js_or_def Object_prototype_keys_def
  SaveAttempt_properties_def SnapshotCreated_properties_def IssueCreated_properties_def
  SessionRestored_properties_def IssueResolved_properties_def SessionFinalized_properties_def

lemmas mapper_eval = EventMapper_mapEvent_def EventMapper_switch_def
  EventMapper_mapOnboardingProtectionAssigned_def EventMapper_mapSnapshotCreated_def
  EventMapper_mapSnapBackUsed_def EventMapper_mapRiskDetected_def try_catch_def
  Migrate_mapEvent_def Migrate_switch_def Migrate_mapOnboardingProtectionAssigned_def
  Migrate_mapCommandExecution_def Migrate_mapSnapshotCreated_def
  Migrate_mapExtensionDeactivated_def Migrate_mapRiskDetected_def
  Migrate_mapWalkthroughStepCompleted_def Migrate_mapSnapBackUsed_def return_member

lemma construction_failure_is_null:
  "event_name event = ONBOARDING_PROTECTION_ASSIGNED \<Longrightarrow>
     EventMapper_mapOnboardingProtectionAssigned_try now event = Inl err \<Longrightarrow>
     EventMapper_mapEvent now event = Inr None"
  "event_name event = SNAPSHOT_CREATED \<Longrightarrow>
     EventMapper_mapSnapshotCreated_try now event = Inl err \<Longrightarrow>
     EventMapper_mapEvent now event = Inr None"
  "event_name event = SNAPBACK_USED \<Longrightarrow>
     EventMapper_mapSnapBackUsed_try now event = Inl err \<Longrightarrow>
     EventMapper_mapEvent now event = Inr None"
  "event_name event = RISK_DETECTED \<Longrightarrow>
     EventMapper_mapRiskDetected_try now event = Inl err \<Longrightarrow>
     EventMapper_mapEvent now event = Inr None"
  by (simp_all add: EventMapper_mapEvent_def EventMapper_switch_def try_catch_Inl
        EventMapper_mapOnboardingProtectionAssigned_def EventMapper_mapSnapshotCreated_def
        EventMapper_mapSnapBackUsed_def EventMapper_mapRiskDetected_def)

lemma Migrate_invalid_is_null:
  assumes "riskLevel \<notin> set [''low'', ''medium'', ''high'', ''critical'']"
  shows "Migrate_mapEvent now (RiskDetectedEvent riskLevel patterns confidence ts) = Inr None"
proof -
  have "z_enum severity_enum (JStr riskLevel) = None"
    using assms by simp
  then have "IssueCreatedSchema now
      (JObj [(''event'', JStr ''issue_created''),
             (''properties'', JObj
                [(''issue_id'', JStr ''unknown''),
                 (''session_id'', JStr ''unknown''),
                 (''file_kind'', JStr ''unknown''),
                 (''type'', JStr ''phantom''),
                 (''severity'', JStr riskLevel),
                 (''recommendation'', JStr ''Review detected risk'')]),
             (''timestamp'', JNum ts)]) = None"
    by (simp add: event_schema_def IssueCreated_properties_def del: z_enum.simps)
  then show ?thesis
    by (simp add: Migrate_mapEvent_def Migrate_switch_def Migrate_mapRiskDetected_def return_member)
qed

text \<open>On a risk detection events/migrate.ts always gives the type phantom.\<close>

lemma Migrate_mapRiskDetected_value:
  assumes "riskLevel \<in> set [''low'', ''medium'', ''high'', ''critical'']"
  shows "Migrate_mapEvent now (RiskDetectedEvent riskLevel patterns confidence (Num r)) =
     Inr (Some \<lparr>event_version = ''1.0.0'', timestamp = Num r,
            properties = IssueCreatedProps ''unknown'' ''unknown'' ''unknown'' IssuePhantom
               (spec_severity riskLevel) ''Review detected risk''\<rparr>)"
proof -
  from assms have "riskLevel = ''low'' \<or> riskLevel = ''medium'' \<or> riskLevel = ''high'' \<or>
      riskLevel = ''critical''"
    by (simp only: list.set insert_iff empty_iff simp_thms)
  then show ?thesis
    by (elim disjE) (simp_all add: mapper_eval schema_eval spec_severity_def)
qed

lemma Migrate_without_read_returns:
  "\<exists>r. Migrate_mapSnapshotCreated now event = Inr r"
  "\<exists>r. Migrate_mapExtensionDeactivated now event = Inr r"
  "\<exists>r. Migrate_mapSnapBackUsed now event = Inr r"
  by (simp_all add: Migrate_mapSnapshotCreated_def Migrate_mapExtensionDeactivated_def
        Migrate_mapSnapBackUsed_def return_member)

lemma Migrate_switch_read:
  "Migrate_switch tag = CaseOnboardingProtectionAssigned \<Longrightarrow> tag = ONBOARDING_PROTECTION_ASSIGNED"
  "Migrate_switch tag = CaseCommandExecution \<Longrightarrow> tag = COMMAND_EXECUTION"
  "Migrate_switch tag = CaseRiskDetected \<Longrightarrow> tag = RISK_DETECTED"
  "Migrate_switch tag = CaseWalkthroughStepCompleted \<Longrightarrow> tag = WALKTHROUGH_STEP_COMPLETED"
  by (simp_all add: Migrate_switch_def split: if_splits)

lemma Migrate_mapEvent_returns_without_read:
  assumes "event_name event \<notin> set [ONBOARDING_PROTECTION_ASSIGNED, COMMAND_EXECUTION,
             RISK_DETECTED, WALKTHROUGH_STEP_COMPLETED]"
  shows "\<exists>r. Migrate_mapEvent now event = Inr r"
proof (cases "Migrate_switch (event_name event)")
  case CaseOnboardingProtectionAssigned
  with assms show ?thesis by (simp add: Migrate_switch_read)
next
  case CaseCommandExecution
  with assms show ?thesis by (simp add: Migrate_switch_read)
next
  case CaseRiskDetected
  with assms show ?thesis by (simp add: Migrate_switch_read)
next
  case CaseWalkthroughStepCompleted
  with assms show ?thesis by (simp add: Migrate_switch_read)
qed (simp_all add: Migrate_mapEvent_def Migrate_without_read_returns)

lemma Migrate_mapEvent_throws:
  assumes "tag \<in> set [ONBOARDING_PROTECTION_ASSIGNED, COMMAND_EXECUTION,
             RISK_DETECTED, WALKTHROUGH_STEP_COMPLETED]"
  shows "Migrate_mapEvent now (TelemetryEvent tag ts) = Inl TypeError"
proof -
  from assms have "tag = ONBOARDING_PROTECTION_ASSIGNED \<or> tag = COMMAND_EXECUTION \<or>
      tag = RISK_DETECTED \<or> tag = WALKTHROUGH_STEP_COMPLETED"
    by (simp only: list.set insert_iff empty_iff simp_thms)
  then show ?thesis
    by (elim disjE)
       (simp_all add: Migrate_mapEvent_def Migrate_switch_def
          Migrate_mapOnboardingProtectionAssigned_def Migrate_mapCommandExecution_def
          Migrate_mapRiskDetected_def Migrate_mapWalkthroughStepCompleted_def)
qed

text \<open>
  Claim C1, as stated, fails for events/migrate.ts. Its methods have no \<^verbatim>\<open>try\<close>: on an
  event of the tag \<^verbatim>\<open>risk.detected\<close> that carries no \<^verbatim>\<open>properties\<close>, reading
  \<^verbatim>\<open>event.properties.riskLevel\<close> throws a TypeError, which leaves \<^verbatim>\<open>mapEvent\<close>; on the same
  event the mapper of event-mapper.ts catches it and returns null.
\<close>

theorem Migrate_mapEvent_throws_counterexample:
  "Migrate_mapEvent 1700000000001 (TelemetryEvent ''risk.detected'' (Num 1700000000000))
     = Inl TypeError \<and>
   EventMapper_mapEvent 1700000000001 (TelemetryEvent ''risk.detected'' (Num 1700000000000))
     = Inr None"
  by (simp add: mapper_eval)

text \<open>
  Claim C1, amended. The mapper of telemetry/event-mapper.ts returns a core event or
  null on every event and never throws; where the body of one of its methods throws,
  \<^verbatim>\<open>mapEvent\<close> returns null. In both mappers each of the seventeen known tags reaches a
  label of the \<^verbatim>\<open>switch\<close> other than \<^verbatim>\<open>default\<close>, and a tag outside the table reaches
  \<^verbatim>\<open>default\<close> and gives null. The mapper of events/migrate.ts catches nothing: it
  returns on every event that carries its properties and on every event whose tag is
  none of the four whose method reads a property; it returns null where its validator
  refuses the event it built (a risk level outside the enum); and on an event of one of
  those four tags without properties the TypeError leaves \<^verbatim>\<open>mapEvent\<close>.
\<close>

theorem mapEvent_returns_or_propagates:
  "(\<exists>r. EventMapper_mapEvent now event = Inr r) \<and>
   (event_name event = ONBOARDING_PROTECTION_ASSIGNED \<and>
      EventMapper_mapOnboardingProtectionAssigned_try now event = Inl err \<longrightarrow>
      EventMapper_mapEvent now event = Inr None) \<and>
   (event_name event = SNAPSHOT_CREATED \<and> EventMapper_mapSnapshotCreated_try now event = Inl err \<longrightarrow>
      EventMapper_mapEvent now event = Inr None) \<and>
   (event_name event = SNAPBACK_USED \<and> EventMapper_mapSnapBackUsed_try now event = Inl err \<longrightarrow>
      EventMapper_mapEvent now event = Inr None) \<and>
   (event_name event = RISK_DETECTED \<and> EventMapper_mapRiskDetected_try now event = Inl err \<longrightarrow>
      EventMapper_mapEvent now event = Inr None) \<and>
   CaseDefault \<notin> set (map EventMapper_switch TELEMETRY_EVENTS) \<and>
   CaseDefault \<notin> set (map Migrate_switch TELEMETRY_EVENTS) \<and>
   (tag \<notin> set TELEMETRY_EVENTS \<longrightarrow>
      EventMapper_switch tag = CaseDefault \<and> Migrate_switch tag = CaseDefault \<and>
      EventMapper_mapEvent now (TelemetryEvent tag ts) = Inr None \<and>
      Migrate_mapEvent now (TelemetryEvent tag ts) = Inr None) \<and>
   (has_properties event \<or>
    event_name event \<notin> set [ONBOARDING_PROTECTION_ASSIGNED, COMMAND_EXECUTION, RISK_DETECTED,
                              WALKTHROUGH_STEP_COMPLETED] \<longrightarrow>
      (\<exists>r. Migrate_mapEvent now event = Inr r)) \<and>
   (riskLevel \<notin> set [''low'', ''medium'', ''high'', ''critical''] \<longrightarrow>
      Migrate_mapEvent now (RiskDetectedEvent riskLevel patterns confidence ts) = Inr None) \<and>
   (known \<in> set [ONBOARDING_PROTECTION_ASSIGNED, COMMAND_EXECUTION, RISK_DETECTED,
                   WALKTHROUGH_STEP_COMPLETED] \<longrightarrow>
      Migrate_mapEvent now (TelemetryEvent known ts) = Inl TypeError)"
proof -
  have migrate: "\<exists>r. Migrate_mapEvent now event = Inr r"
    if "has_properties event \<or>
        event_name event \<notin> set [ONBOARDING_PROTECTION_ASSIGNED, COMMAND_EXECUTION, RISK_DETECTED,
                                  WALKTHROUGH_STEP_COMPLETED]"
    using that
  proof
    assume "has_properties event"
    then show ?thesis by (rule Migrate_mapEvent_returns)
  next
    assume "event_name event \<notin> set [ONBOARDING_PROTECTION_ASSIGNED, COMMAND_EXECUTION,
              RISK_DETECTED, WALKTHROUGH_STEP_COMPLETED]"
    then show ?thesis by (rule Migrate_mapEvent_returns_without_read)
  qed
  have labels: "CaseDefault \<notin> set (map EventMapper_switch TELEMETRY_EVENTS)"
    "CaseDefault \<notin> set (map Migrate_switch TELEMETRY_EVENTS)"
    unfolding switch_labels by simp_all
  have other: "EventMapper_switch tag = CaseDefault \<and> Migrate_switch tag = CaseDefault \<and>
      EventMapper_mapEvent now (TelemetryEvent tag ts) = Inr None \<and>
      Migrate_mapEvent now (TelemetryEvent tag ts) = Inr None"
    if "tag \<notin> set TELEMETRY_EVENTS"
    by (simp add: EventMapper_mapEvent_def Migrate_mapEvent_def unrecognized_tag[OF that])
  show ?thesis
    using EventMapper_mapEvent_returns[of now event] migrate labels other
      construction_failure_is_null[of event now err]
      Migrate_invalid_is_null[of riskLevel now patterns confidence ts]
      Migrate_mapEvent_throws[of known now ts]
    by blast
qed


theorem mapEvent_returns_or_propagates_witness:
  "EventMapper_mapEvent 1700000000001
     (SnapBackUsedEvent (Num 2.5) (Num 1500) True (Num 1700000000000)) = Inr None \<and>
   Migrate_mapEvent 1700000000001
     (SnapBackUsedEvent (Num 2.5) (Num 1500) True (Num 1700000000000))
     = Inr (Some \<lparr>event_version = ''1.0.0'', timestamp = Num 1700000000000,
                   properties = SessionRestoredProps ''unknown'' [] (Num 1500) ''user_request''\<rparr>) \<and>
   EventMapper_mapEvent 1700000000001 (TelemetryEvent ''custom.event'' (Num 1700000000000)) = Inr None \<and>
   Migrate_mapEvent 1700000000001 (TelemetryEvent ''custom.event'' (Num 1700000000000)) = Inr None \<and>
   EventMapper_mapEvent 1700000000001
     (OnboardingProtectionAssignedEvent ''constructor'' ''manual'' ''typescript'' True
        (Num 1700000000000)) = Inr None \<and>
   EventMapper_mapEvent 1700000000001 (SnapshotCreatedEvent ''manual'' NaN (Num 1700000000000))
     = Inr None \<and>
   EventMapper_mapEvent 1700000000001 (RiskDetectedEvent ''high'' [''eval''] (Num 0.5) NaN)
     = Inr None \<and>
   Migrate_mapEvent 1700000000001 (RiskDetectedEvent ''severe'' [''eval''] (Num 0.5) (Num 1700000000000))
     = Inr None \<and>
   Migrate_mapEvent 1700000000001 (TelemetryEvent ''command.execution'' (Num 1700000000000))
     = Inl TypeError \<and>
   (\<exists>r. Migrate_mapEvent 1700000000001 (TelemetryEvent ''snapshot.created'' (Num 1700000000000))
     = Inr r)"
proof -
  let ?now = "1700000000001 :: nat"
  let ?ts = "Num 1700000000000"
  let ?restore = "SnapBackUsedEvent (Num 2.5) (Num 1500) True ?ts"
  let ?assign = "OnboardingProtectionAssignedEvent ''constructor'' ''manual'' ''typescript'' True ?ts"
  let ?snapshot = "SnapshotCreatedEvent ''manual'' NaN ?ts"
  let ?risk = "RiskDetectedEvent ''high'' [''eval''] (Num 0.5) NaN"
  have restore: "has_properties ?restore" "event_name ?restore = SNAPBACK_USED"
    "EventMapper_mapSnapBackUsed_try ?now ?restore = Inl RangeError"
    by simp_all
  have tag: "''custom.event'' \<notin> set TELEMETRY_EVENTS"
    by (simp add: TELEMETRY_EVENTS_def)
  have level: "''severe'' \<notin> set [''low'', ''medium'', ''high'', ''critical'']"
    by simp
  have known: "''command.execution'' \<in> set [ONBOARDING_PROTECTION_ASSIGNED, COMMAND_EXECUTION,
      RISK_DETECTED, WALKTHROUGH_STEP_COMPLETED]"
    by simp
  have bare: "event_name (TelemetryEvent ''snapshot.created'' ?ts)
      \<notin> set [ONBOARDING_PROTECTION_ASSIGNED, COMMAND_EXECUTION, RISK_DETECTED,
                WALKTHROUGH_STEP_COMPLETED]"
    by simp
  have assign: "event_name ?assign = ONBOARDING_PROTECTION_ASSIGNED"
    "EventMapper_mapOnboardingProtectionAssigned_try ?now ?assign = Inl ZodError"
    by (simp_all add: schema_eval)
  have snapshot: "event_name ?snapshot = SNAPSHOT_CREATED"
    "EventMapper_mapSnapshotCreated_try ?now ?snapshot = Inl ZodError"
    by (simp_all add: schema_eval)
  have risk: "event_name ?risk = RISK_DETECTED"
    "EventMapper_mapRiskDetected_try ?now ?risk = Inl ZodError"
    by (simp_all add: schema_eval)
  note a = mapEvent_returns_or_propagates[where now="?now" and event="?restore" and tag="''custom.event''"
      and ts="?ts" and err=RangeError and riskLevel="''severe''" and patterns="[''eval'']"
      and confidence="Num 0.5" and known="''command.execution''"]
  note e = mapEvent_returns_or_propagates[where now="?now"
      and event="TelemetryEvent ''snapshot.created'' ?ts"]
  note b = mapEvent_returns_or_propagates[where now="?now" and event="?assign" and err=ZodError]
  note c = mapEvent_returns_or_propagates[where now="?now" and event="?snapshot" and err=ZodError]
  note d = mapEvent_returns_or_propagates[where now="?now" and event="?risk" and err=ZodError]
  from a restore tag level known have
    "Migrate_mapEvent ?now (TelemetryEvent ''command.execution'' ?ts) = Inl TypeError"
    "EventMapper_mapEvent ?now ?restore = Inr None"
    "EventMapper_mapEvent ?now (TelemetryEvent ''custom.event'' ?ts) = Inr None"
    "Migrate_mapEvent ?now (TelemetryEvent ''custom.event'' ?ts) = Inr None"
    "Migrate_mapEvent ?now (RiskDetectedEvent ''severe'' [''eval''] (Num 0.5) ?ts) = Inr None"
    by blast+
  moreover have "Migrate_mapEvent ?now ?restore
     = Inr (Some \<lparr>event_version = ''1.0.0'', timestamp = Num 1700000000000,
                   properties = SessionRestoredProps ''unknown'' [] (Num 1500) ''user_request''\<rparr>)"
    by (simp add: mapper_eval schema_eval)
  moreover from b assign have "EventMapper_mapEvent ?now ?assign = Inr None" by blast
  moreover from c snapshot have "EventMapper_mapEvent ?now ?snapshot = Inr None" by blast
  moreover from d risk have "EventMapper_mapEvent ?now ?risk = Inr None" by blast
  moreover from e bare
  have "\<exists>r. Migrate_mapEvent ?now (TelemetryEvent ''snapshot.created'' ?ts) = Inr r" by blast
  ultimately show ?thesis by blast
qed


text \<open>
  Claim C2, as stated, fails. On patterns \<^verbatim>\<open>["mock_test_helper"]\<close> and level high the
  mapper of events/migrate.ts gives the type phantom, and on a level outside the enum it
  gives null instead of medium. In event-mapper.ts a level that names a property every
  object inherits (\<^verbatim>\<open>severityMap["constructor"]\<close> is a function, hence truthy) and a NaN
  timestamp make the schema refuse the event, so \<^verbatim>\<open>mapEvent\<close> gives null.
\<close>

theorem risk_detected_counterexample:
  "Migrate_mapEvent 1700000000001
     (RiskDetectedEvent ''high'' [''mock_test_helper''] (Num 0.9) (Num 1700000000000))
   = Inr (Some \<lparr>event_version = ''1.0.0'', timestamp = Num 1700000000000,
                 properties = IssueCreatedProps ''unknown'' ''unknown'' ''unknown'' IssuePhantom High
                    ''Review detected risk''\<rparr>) \<and>
   Migrate_mapEvent 1700000000001
     (RiskDetectedEvent ''severe'' [''mock_test_helper''] (Num 0.9) (Num 1700000000000))
   = Inr None \<and>
   EventMapper_mapEvent 1700000000001
     (RiskDetectedEvent ''constructor'' [''mock_test_helper''] (Num 0.9) (Num 1700000000000))
   = Inr None \<and>
   EventMapper_mapEvent 1700000000001
     (RiskDetectedEvent ''high'' [''mock_test_helper''] (Num 0.9) NaN)
   = Inr None"
  by (simp add: mapper_eval schema_eval)

text \<open>
  Claim C2, amended. For every risk-detection event with a finite timestamp and a risk
  level that is no name of an inherited object property, \<^verbatim>\<open>mapEvent\<close> of
  telemetry/event-mapper.ts returns an \<^verbatim>\<open>issue_created\<close> event whose type follows the
  patterns as the specification says (\<open>spec_issue_type\<close>) and whose severity is the
  level carried over, medium for a level outside the four (\<open>spec_severity\<close>). In
  particular the patterns \<^verbatim>\<open>["mock_test_helper"]\<close> with level high give type mock and
  severity high.
\<close>

theorem risk_detected_maps_to_issue_created:
  assumes "riskLevel \<notin> set Object_prototype_keys"
  shows "EventMapper_mapEvent now (RiskDetectedEvent riskLevel patterns confidence (Num r)) =
     Inr (Some \<lparr>event_version = ''1.0.0'', timestamp = Num r,
            properties = IssueCreatedProps (''issue_'' @ decimal now) ''legacy_session'' ''unknown''
               (spec_issue_type patterns) (spec_severity riskLevel)
               ''Review detected risk pattern''\<rparr>) \<and>
     spec_issue_type [''mock_test_helper''] = IssueMock \<and> spec_severity ''high'' = High"
proof -
  have "spec_issue_type [''mock_test_helper''] = IssueMock"
    by (simp add: spec_issue_type_def sublist_Cons_right)
  moreover have "spec_severity ''high'' = High"
    by (simp add: spec_severity_def)
  ultimately show ?thesis
    by (simp add: EventMapper_mapEvent_def EventMapper_switch_def
          EventMapper_mapRiskDetected_value[OF assms])
qed

theorem risk_detected_maps_to_issue_created_witness:
  "EventMapper_mapEvent 1700000000001
     (RiskDetectedEvent ''high'' [''mock_test_helper''] (Num 0.9) (Num 1700000000000)) =
     Inr (Some \<lparr>event_version = ''1.0.0'', timestamp = Num 1700000000000,
            properties = IssueCreatedProps ''issue_1700000000001'' ''legacy_session'' ''unknown''
               IssueMock High ''Review detected risk pattern''\<rparr>) \<and>
   EventMapper_mapEvent 1700000000001
     (RiskDetectedEvent ''severe'' [''unused_import''] (Num 0.9) (Num 1700000000000)) =
     Inr (Some \<lparr>event_version = ''1.0.0'', timestamp = Num 1700000000000,
            properties = IssueCreatedProps ''issue_1700000000001'' ''legacy_session'' ''unknown''
               IssuePhantom Medium ''Review detected risk pattern''\<rparr>) \<and>
   EventMapper_mapEvent 1700000000001
     (RiskDetectedEvent ''low'' [''api_key''] (Num 0.9) (Num 1700000000000)) =
     Inr (Some \<lparr>event_version = ''1.0.0'', timestamp = Num 1700000000000,
            properties = IssueCreatedProps ''issue_1700000000001'' ''legacy_session'' ''unknown''
               IssueSecret Low ''Review detected risk pattern''\<rparr>)"
proof -
  have keys: "''high'' \<notin> set Object_prototype_keys" "''severe'' \<notin> set Object_prototype_keys"
    "''low'' \<notin> set Object_prototype_keys"
    by (simp_all add: Object_prototype_keys_def)
  have spec: "spec_issue_type [''mock_test_helper''] = IssueMock"
    "spec_issue_type [''unused_import''] = IssuePhantom"
    "spec_issue_type [''api_key''] = IssueSecret"
    "spec_severity ''high'' = High" "spec_severity ''severe'' = Medium" "spec_severity ''low'' = Low"
    by (simp_all add: spec_issue_type_def spec_severity_def sublist_Cons_right)
  have dec: "decimal 1700000000001 = ''1700000000001''"
    by (simp add: decimal.simps)
  show ?thesis
    using risk_detected_maps_to_issue_created[OF keys(1), of 1700000000001 "[''mock_test_helper'']" "Num 0.9" 1700000000000]
      risk_detected_maps_to_issue_created[OF keys(2), of 1700000000001 "[''unused_import'']" "Num 0.9" 1700000000000]
      risk_detected_maps_to_issue_created[OF keys(3), of 1700000000001 "[''api_key'']" "Num 0.9" 1700000000000]
    by (simp add: spec dec)
qed

text \<open>
  Claim C3. The two mappers return different core events on one legacy event: on a
  protection assignment of level watch, event-mapper.ts gives severity low and the
  reason prefixed with \<^verbatim>\<open>onboarding_\<close>, migrate.ts gives severity medium and the bare
  trigger; a command execution is null for event-mapper.ts and a \<^verbatim>\<open>save_attempt\<close> with an
  outcome of its own for migrate.ts.
\<close>

theorem mappers_disagree:
  "EventMapper_mapEvent now
     (OnboardingProtectionAssignedEvent ''watch'' ''manual'' ''typescript'' True (Num 1700000000000))
   = Inr (Some \<lparr>event_version = ''1.0.0'', timestamp = Num 1700000000000,
                 properties = SaveAttemptProps Watch Low ''typescript'' ''onboarding_manual''
                    False False Saved\<rparr>) \<and>
   Migrate_mapEvent now
     (OnboardingProtectionAssignedEvent ''watch'' ''manual'' ''typescript'' True (Num 1700000000000))
   = Inr (Some \<lparr>event_version = ''1.0.0'', timestamp = Num 1700000000000,
                 properties = SaveAttemptProps Watch Medium ''typescript'' ''manual''
                    False False Saved\<rparr>) \<and>
   EventMapper_mapEvent now
     (CommandExecutionEvent ''snapback.restore'' (Num 12) False (Num 1700000000000))
   = Inr None \<and>
   Migrate_mapEvent now
     (CommandExecutionEvent ''snapback.restore'' (Num 12) False (Num 1700000000000))
   = Inr (Some \<lparr>event_version = ''1.0.0'', timestamp = Num 1700000000000,
                 properties = SaveAttemptProps Watch Low ''unknown'' ''snapback.restore''
                    False False Canceled\<rparr>) \<and>
   (\<exists>event. EventMapper_mapEvent now event \<noteq> Migrate_mapEvent now event)"
proof -
  have a: "EventMapper_mapEvent now
     (OnboardingProtectionAssignedEvent ''watch'' ''manual'' ''typescript'' True (Num 1700000000000))
   = Inr (Some \<lparr>event_version = ''1.0.0'', timestamp = Num 1700000000000,
                 properties = SaveAttemptProps Watch Low ''typescript'' ''onboarding_manual''
                    False False Saved\<rparr>)"
    by (simp add: mapper_eval schema_eval)
  have b: "Migrate_mapEvent now
     (OnboardingProtectionAssignedEvent ''watch'' ''manual'' ''typescript'' True (Num 1700000000000))
   = Inr (Some \<lparr>event_version = ''1.0.0'', timestamp = Num 1700000000000,
                 properties = SaveAttemptProps Watch Medium ''typescript'' ''manual''
                    False False Saved\<rparr>)"
    by (simp add: mapper_eval schema_eval)
  have c: "EventMapper_mapEvent now
     (CommandExecutionEvent ''snapback.restore'' (Num 12) False (Num 1700000000000)) = Inr None"
    by (simp add: mapper_eval)
  have d: "Migrate_mapEvent now
     (CommandExecutionEvent ''snapback.restore'' (Num 12) False (Num 1700000000000))
   = Inr (Some \<lparr>event_version = ''1.0.0'', timestamp = Num 1700000000000,
                 properties = SaveAttemptProps Watch Low ''unknown'' ''snapback.restore''
                    False False Canceled\<rparr>)"
    by (simp add: mapper_eval schema_eval)
  have "EventMapper_mapEvent now
     (CommandExecutionEvent ''snapback.restore'' (Num 12) False (Num 1700000000000))
     \<noteq> Migrate_mapEvent now
     (CommandExecutionEvent ''snapback.restore'' (Num 12) False (Num 1700000000000))"
    unfolding c d by simp
  then have "\<exists>event. EventMapper_mapEvent now event \<noteq> Migrate_mapEvent now event" ..
  with a b c d show ?thesis by simp
qed

text \<open>
  Claim C10. Whenever \<^verbatim>\<open>mapEvent\<close> (of either mapper) returns a core event, its
  \<^verbatim>\<open>timestamp\<close> is the \<^verbatim>\<open>timestamp\<close> of the legacy event: neither the default of the
  schema nor any other time takes its place.
\<close>

theorem mapped_timestamp_preserved:
  "(EventMapper_mapEvent now event = Inr (Some c) \<longrightarrow> timestamp c = legacy_timestamp event) \<and>
   (Migrate_mapEvent now event = Inr (Some c) \<longrightarrow> timestamp c = legacy_timestamp event)"
  using EventMapper_mapEvent_timestamp Migrate_mapEvent_timestamp by blast

theorem mapped_timestamp_preserved_witness:
  "EventMapper_mapEvent 1700000000999
     (SnapBackUsedEvent (Num 3) (Num 1500) True (Num 1700000000000))
   = Inr (Some \<lparr>event_version = ''1.0.0'', timestamp = Num 1700000000000,
                 properties = SessionRestoredProps ''legacy_session''
                    [''legacy_file'', ''legacy_file'', ''legacy_file''] (Num 1500)
                    ''user_initiated''\<rparr>) \<and>
   Migrate_mapEvent 1700000000999
     (SnapBackUsedEvent (Num 3) (Num 1500) True (Num 1700000000000))
   = Inr (Some \<lparr>event_version = ''1.0.0'', timestamp = Num 1700000000000,
                 properties = SessionRestoredProps ''unknown'' [] (Num 1500) ''user_request''\<rparr>) \<and>
   timestamp \<lparr>event_version = ''1.0.0'', timestamp = Num 1700000000000,
                 properties = SessionRestoredProps ''legacy_session''
                    [''legacy_file'', ''legacy_file'', ''legacy_file''] (Num 1500)
                    ''user_initiated''\<rparr>
     = legacy_timestamp (SnapBackUsedEvent (Num 3) (Num 1500) True (Num 1700000000000)) \<and>
   timestamp \<lparr>event_version = ''1.0.0'', timestamp = Num 1700000000000,
                 properties = SessionRestoredProps ''unknown'' [] (Num 1500) ''user_request''\<rparr>
     = legacy_timestamp (SnapBackUsedEvent (Num 3) (Num 1500) True (Num 1700000000000))"
proof -
  let ?e = "SnapBackUsedEvent (Num 3) (Num 1500) True (Num 1700000000000)"
  let ?a = "\<lparr>event_version = ''1.0.0'', timestamp = Num 1700000000000,
                 properties = SessionRestoredProps ''legacy_session''
                    [''legacy_file'', ''legacy_file'', ''legacy_file''] (Num 1500)
                    ''user_initiated''\<rparr>"
  let ?b = "\<lparr>event_version = ''1.0.0'', timestamp = Num 1700000000000,
                 properties = SessionRestoredProps ''unknown'' [] (Num 1500) ''user_request''\<rparr>"
  have a: "EventMapper_mapEvent 1700000000999 ?e = Inr (Some ?a)"
    by (simp add: mapper_eval schema_eval numeral_3_eq_3)
  have b: "Migrate_mapEvent 1700000000999 ?e = Inr (Some ?b)"
    by (simp add: mapper_eval schema_eval)
  from mapped_timestamp_preserved[of 1700000000999 ?e ?a] a
  have ta: "timestamp ?a = legacy_timestamp ?e" by blast
  from mapped_timestamp_preserved[of 1700000000999 ?e ?b] b
  have tb: "timestamp ?b = legacy_timestamp ?e" by blast
  from a b ta tb show ?thesis by blast
qed


section \<open>Properties of the migration script\<close>

lemma EventMapper_mapEvent_result: "EventMapper_mapEvent now event = Inr (mapEvent_result now event)"
  using EventMapper_mapEvent_returns[of now event] by (auto simp: mapEvent_result_def)

lemma migrate_loop_accumulates:
  "migrate_loop clock i legacyEvents coreEvents unmappedEvents =
     Inr (coreEvents @
            List.map_filter (\<lambda>(j, e). mapEvent_result (clock j) e) (enumerate i legacyEvents),
          unmappedEvents @
            map snd (filter (\<lambda>(j, e). mapEvent_result (clock j) e = None) (enumerate i legacyEvents)))"
proof (induction legacyEvents arbitrary: i coreEvents unmappedEvents)
  case Nil
  show ?case by (simp add: map_filter_simps)
next
  case (Cons e es)
  show ?case
  proof (cases "mapEvent_result (clock i) e")
    case None
    then show ?thesis
      by (simp add: EventMapper_mapEvent_result Cons.IH map_filter_simps)
  next
    case (Some c)
    then show ?thesis
      by (simp add: EventMapper_mapEvent_result Cons.IH map_filter_simps)
  qed
qed

lemma length_partition:
  "length (List.map_filter f xs) + length (filter (\<lambda>x. f x = None) xs) = length xs"
  by (induction xs) (auto simp: map_filter_simps split: option.splits)

text \<open>
  Claim C4. On every list of legacy events the loop of the migration script returns
  (the mapper never throwing) with, as mapped output, the non-null results of the
  mapper in input order and, as unmapped output, the input events whose result is null,
  in input order; the two lengths add up to the length of the input.
\<close>

theorem migrate_loop_partitions:
  "\<exists>coreEvents unmappedEvents.
     migrate_loop clock 0 legacyEvents [] [] = Inr (coreEvents, unmappedEvents) \<and>
     coreEvents =
       List.map_filter (\<lambda>(i, e). mapEvent_result (clock i) e) (enumerate 0 legacyEvents) \<and>
     unmappedEvents =
       map snd (filter (\<lambda>(i, e). mapEvent_result (clock i) e = None) (enumerate 0 legacyEvents)) \<and>
     length coreEvents + length unmappedEvents = length legacyEvents"
proof -
  have "length (List.map_filter (\<lambda>(i, e). mapEvent_result (clock i) e) (enumerate 0 legacyEvents)) +
        length (filter (\<lambda>x. (\<lambda>(i, e). mapEvent_result (clock i) e) x = None) (enumerate 0 legacyEvents))
        = length legacyEvents"
    unfolding length_partition by simp
  then show ?thesis
    by (simp add: migrate_loop_accumulates case_prod_unfold)
qed

text \<open>A batch of five events of which two have a mapping.\<close>

lemma migrate_loop_example:
  "migrate_loop ((+) 1700000000000) 0
     [ExtensionActivatedEvent ''1.2.0'' ''1.85.0'' (Num 1),
      SnapBackUsedEvent (Num 1) (Num 1500) True (Num 2),
      ViewActivatedEvent ''timeline'' (Num 3),
      OnboardingProtectionAssignedEvent ''high'' ''manual'' ''typescript'' True (Num 4),
      ErrorEvent ''io'' ''disk full'' (Num 5)] [] []
   = Inr ([\<lparr>event_version = ''1.0.0'', timestamp = Num 2,
             properties = SessionRestoredProps ''legacy_session'' [''legacy_file''] (Num 1500)
                ''user_initiated''\<rparr>,
           \<lparr>event_version = ''1.0.0'', timestamp = Num 4,
             properties = SaveAttemptProps Block High ''typescript'' ''onboarding_manual''
                False False Saved\<rparr>],
          [ExtensionActivatedEvent ''1.2.0'' ''1.85.0'' (Num 1),
           ViewActivatedEvent ''timeline'' (Num 3),
           ErrorEvent ''io'' ''disk full'' (Num 5)])"
  by (simp add: mapper_eval schema_eval)

lemma main_writes:
  assumes "args = inputFile # outputFile # rest"
    and "fs inputFile = Some (LegacyEventArray legacyEvents)"
    and "migrate_loop clock 0 legacyEvents [] [] = Inr (coreEvents, unmappedEvents)"
  shows "main args fs clock =
           (0, (outputFile, CoreEventsJson coreEvents) #
               (if unmappedEvents = [] then []
                else [(js_replace ''.json'' ''-unmapped.json'' outputFile,
                       LegacyEventsJson unmappedEvents)]))"
  using assms by (simp add: main_def)

text \<open>
  Claim C5, amended. The name of the second file comes from the output file, not from
  the input file: for an output name that ends in \<^verbatim>\<open>.json\<close> and holds no earlier
  \<^verbatim>\<open>.json\<close>, the script writes the core events to the output file and, when at least
  one event could not be mapped, the unmapped events to the output name with
  \<^verbatim>\<open>-unmapped\<close> before its extension; when every event maps it writes the output file
  only.
\<close>

theorem unmapped_file_written:
  assumes "args = inputFile # outputFile # rest"
    and "fs inputFile = Some (LegacyEventArray legacyEvents)"
    and "migrate_loop clock 0 legacyEvents [] [] = Inr (coreEvents, unmappedEvents)"
    and "outputFile = base @ ''.json''"
    and "\<not> sublist ''.json'' (base @ ''.jso'')"
  shows "main args fs clock =
           (0, if unmappedEvents = [] then [(outputFile, CoreEventsJson coreEvents)]
               else [(outputFile, CoreEventsJson coreEvents),
                     (base @ ''-unmapped.json'', LegacyEventsJson unmappedEvents)])"
proof -
  have "js_replace ''.json'' ''-unmapped.json'' (base @ ''.json'') = base @ ''-unmapped.json''"
    using assms(5) by (intro js_replace_suffix) simp_all
  with main_writes[where fs=fs and inputFile=inputFile, OF assms(1,2,3)] assms(4) show ?thesis by simp
qed

theorem unmapped_file_written_witness:
  "main [''legacy.json'', ''out/core.json'']
     (map_of [(''legacy.json'',
        LegacyEventArray [ExtensionDeactivatedEvent (Num 1700000000000),
                          SnapshotCreatedEvent ''manual'' (Num 2) (Num 1700000000500)])])
     ((+) 1700000001000)
   = (0, [(''out/core.json'',
           CoreEventsJson [\<lparr>event_version = ''1.0.0'', timestamp = Num 1700000000500,
              properties = SnapshotCreatedProps ''legacy_session'' ''snap_1700000001001''
                 (Num 2048) (Num 1024) False (Num 0)\<rparr>]),
          (''out/core-unmapped.json'',
           LegacyEventsJson [ExtensionDeactivatedEvent (Num 1700000000000)])]) \<and>
   main [''legacy.json'', ''out/core.json'']
     (map_of [(''legacy.json'',
        LegacyEventArray [SnapshotCreatedEvent ''manual'' (Num 2) (Num 1700000000500)])])
     ((+) 1700000001000)
   = (0, [(''out/core.json'',
           CoreEventsJson [\<lparr>event_version = ''1.0.0'', timestamp = Num 1700000000500,
              properties = SnapshotCreatedProps ''legacy_session'' ''snap_1700000001000''
                 (Num 2048) (Num 1024) False (Num 0)\<rparr>])])"
proof -
  let ?snap = "SnapshotCreatedEvent ''manual'' (Num 2) (Num 1700000000500)"
  let ?deact = "ExtensionDeactivatedEvent (Num 1700000000000)"
  let ?core = "\<lambda>id. \<lparr>event_version = ''1.0.0'', timestamp = Num 1700000000500,
              properties = SnapshotCreatedProps ''legacy_session'' id
                 (Num 2048) (Num 1024) False (Num 0)\<rparr>"
  have args: "[''legacy.json'', ''out/core.json''] = ''legacy.json'' # ''out/core.json'' # []"
    by simp
  have out: "''out/core.json'' = ''out/core'' @ ''.json''"
    by simp
  have first: "\<not> sublist ''.json'' (''out/core'' @ ''.jso'')"
    by (simp add: sublist_Cons_right)
  have fs2: "map_of [(''legacy.json'', LegacyEventArray [?deact, ?snap])] ''legacy.json''
               = Some (LegacyEventArray [?deact, ?snap])"
    by simp
  have fs1: "map_of [(''legacy.json'', LegacyEventArray [?snap])] ''legacy.json''
               = Some (LegacyEventArray [?snap])"
    by simp
  have dec: "decimal 1700000001001 = ''1700000001001''" "decimal 1700000001000 = ''1700000001000''"
    by (simp_all add: decimal.simps)
  have loop2: "migrate_loop ((+) 1700000001000) 0 [?deact, ?snap] [] []
                 = Inr ([?core ''snap_1700000001001''], [?deact])"
    by (simp add: mapper_eval schema_eval dec)
  have loop1: "migrate_loop ((+) 1700000001000) 0 [?snap] [] []
                 = Inr ([?core ''snap_1700000001000''], [])"
    by (simp add: mapper_eval schema_eval dec)
  from unmapped_file_written[where inputFile="''legacy.json''"
        and fs="map_of [(''legacy.json'', LegacyEventArray [?deact, ?snap])]",
        OF args fs2 loop2 out first]
    unmapped_file_written[where inputFile="''legacy.json''"
        and fs="map_of [(''legacy.json'', LegacyEventArray [?snap])]",
        OF args fs1 loop1 out first]
  show ?thesis by simp
qed

text \<open>
  Claim C5, as stated, fails: with input \<^verbatim>\<open>legacy.json\<close> and output \<^verbatim>\<open>core.json\<close> the
  unmapped events go to \<^verbatim>\<open>core-unmapped.json\<close>, a name made from the output file.
\<close>

theorem unmapped_file_name_counterexample:
  "main [''legacy.json'', ''core.json'']
     (map_of [(''legacy.json'', LegacyEventArray [ExtensionDeactivatedEvent (Num 1700000000000)])])
     ((+) 1700000001000)
   = (0, [(''core.json'', CoreEventsJson []),
          (''core-unmapped.json'',
           LegacyEventsJson [ExtensionDeactivatedEvent (Num 1700000000000)])]) \<and>
   ''core-unmapped.json'' \<noteq> ''legacy-unmapped.json''"
  by (simp add: main_def mapper_eval)

end
